theory Spec2Isabelle
  imports Main "HOL-Library.Word" "HOL-Library.AList"
begin

unbundle bit_operations_syntax

section \<open>Overview\<close>

text \<open>
  The program is \<^verbatim>\<open>src/index.js\<close>: it creates an Express application, registers one
  route (\<^verbatim>\<open>app.get('/', ...)\<close>, whose handler calls \<^verbatim>\<open>res.send\<close> on a string
  literal) and calls \<^verbatim>\<open>app.listen(PORT, ...)\<close> with the constant \<^verbatim>\<open>PORT = 3000\<close> and a
  callback that logs one line.

  What a client observes is decided by the program together with the runtime it calls:
  Express (router, \<^verbatim>\<open>res.send\<close>, the final handler) and Node (listening, the event
  loop, signals). The theory therefore has two layers:
  \<^item> the runtime layer: the functions of Express and Node that \<^verbatim>\<open>index.js\<close> reaches,
    written after the libraries' sources and named after them (\<^verbatim>\<open>res.send\<close> is
    \<open>res_send\<close>, \<^verbatim>\<open>Route.prototype._handles_method\<close> is \<open>handles_method\<close>, and so on);
  \<^item> the program layer: \<open>PORT\<close>, \<open>greeting\<close>, \<open>root_handler\<close>, \<open>app\<close>,
    \<open>listen_callback\<close> and \<open>main\<close>, one definition per statement of \<^verbatim>\<open>index.js\<close>.

  \<^verbatim>\<open>index.js\<close> requires \<^verbatim>\<open>express\<close> without saying which version. The two major
  versions in use, Express 4 (4.21) and Express 5 (5.1), behave alike in most of what
  the program reaches and differ in five places: the freshness test of a
  conditional request, the paths that the pattern \<^verbatim>\<open>/\<close> matches, the automatic answer to
  \<^verbatim>\<open>OPTIONS\<close>, the point at which a response gets its \<^verbatim>\<open>X-Powered-By\<close> header, and what
  \<^verbatim>\<open>app.listen\<close> does when listening fails. The version is a parameter of the functions
  concerned, and the theorems hold for both versions unless they say otherwise.

  JavaScript functions have effects. A route handler can read and assign the variables
  of the program, and a listener for a signal can do anything to the process; the
  model gives handlers the memory of the process as an argument and a result, and
  listeners the state of the process. That the functions of \<^verbatim>\<open>index.js\<close> use neither is
  then a property of the program, which the theorems state.

  Strings are byte strings: a JavaScript string that reaches the wire is represented by
  its UTF-8 encoding, a header value by its bytes.
\<close>

datatype express_version = Express4 | Express5

section \<open>JavaScript string helpers\<close>

definition digit_chars :: string where
  "digit_chars = ''0123456789abcdef''"

text \<open>\<^verbatim>\<open>Number.prototype.toString(radix)\<close> on a non-negative integer.\<close>

function to_string_radix :: "nat \<Rightarrow> nat \<Rightarrow> string" where
  "to_string_radix r n =
     (if r < 2 \<or> 16 < r then []
      else if n < r then [digit_chars ! n]
      else to_string_radix r (n div r) @ [digit_chars ! (n mod r)])"
  by pat_completeness auto
termination
  by (relation "measure snd") auto

definition show_nat :: "nat \<Rightarrow> string" where
  "show_nat n = to_string_radix 10 n"

definition hex_nat :: "nat \<Rightarrow> string" where
  "hex_nat n = to_string_radix 16 n"

text \<open>\<^verbatim>\<open>String.prototype.split(sep)\<close> for a one-character separator.\<close>

fun split_on :: "char \<Rightarrow> string \<Rightarrow> string list" where
  "split_on sep [] = [[]]"
| "split_on sep (c # cs) =
     (if c = sep then [] # split_on sep cs
      else (case split_on sep cs of
              [] \<Rightarrow> [[c]]
            | w # ws \<Rightarrow> (c # w) # ws))"

text \<open>Removing the characters of a class from both ends of a string.\<close>

definition trim_with :: "(char \<Rightarrow> bool) \<Rightarrow> string \<Rightarrow> string" where
  "trim_with p s = rev (dropWhile p (rev (dropWhile p s)))"

text \<open>\<^verbatim>\<open>String.prototype.includes\<close>.\<close>

fun str_includes :: "string \<Rightarrow> string \<Rightarrow> bool" where
  "str_includes [] needle = (needle = [])"
| "str_includes (c # cs) needle =
     (take (length needle) (c # cs) = needle \<or> str_includes cs needle)"

text \<open>
  \<^verbatim>\<open>Array.prototype.sort()\<close> on strings: ascending, comparing character codes.
\<close>

fun str_le :: "string \<Rightarrow> string \<Rightarrow> bool" where
  "str_le [] t = True"
| "str_le (c # cs) [] = False"
| "str_le (c # cs) (d # ds) =
     ((of_char c :: nat) < of_char d \<or> (c = d \<and> str_le cs ds))"

fun insert_sorted :: "string \<Rightarrow> string list \<Rightarrow> string list" where
  "insert_sorted x [] = [x]"
| "insert_sorted x (y # ys) = (if str_le x y then x # y # ys else y # insert_sorted x ys)"

fun sort_strings :: "string list \<Rightarrow> string list" where
  "sort_strings [] = []"
| "sort_strings (x # xs) = insert_sorted x (sort_strings xs)"

text \<open>\<^verbatim>\<open>Array.prototype.join\<close>.\<close>

fun join :: "string \<Rightarrow> string list \<Rightarrow> string" where
  "join sep [] = []"
| "join sep [x] = x"
| "join sep (x # y # ys) = x @ sep @ join sep (y # ys)"

section \<open>Entity tags\<close>

text \<open>
  Express computes a weak entity tag for every body that \<^verbatim>\<open>res.send\<close> writes (the
  application setting \<^verbatim>\<open>etag\<close> defaults to \<^verbatim>\<open>weak\<close>, and \<^verbatim>\<open>index.js\<close> does not change
  it). The tag is \<^verbatim>\<open>W/"<length in hex>-<first 27 characters of the base64 SHA-1>"\<close>
  (package \<^verbatim>\<open>etag\<close>, function \<^verbatim>\<open>entitytag\<close>).
\<close>

type_synonym word32 = "32 word"

definition rotl :: "nat \<Rightarrow> word32 \<Rightarrow> word32" where
  "rotl n w = push_bit n w OR drop_bit (32 - n) w"

definition sha1_pad :: "nat list \<Rightarrow> nat list" where
  "sha1_pad bs =
     (let l = length bs in
      bs @ [0x80] @ replicate ((119 - l mod 64) mod 64) 0 @
      map (\<lambda>i. (8 * l) div 2 ^ (8 * (7 - i)) mod 256) [0..<8])"

fun be_words :: "nat list \<Rightarrow> word32 list" where
  "be_words (a # b # c # d # bs) =
     word_of_nat (((a * 256 + b) * 256 + c) * 256 + d) # be_words bs"
| "be_words _ = []"

fun blocks :: "nat \<Rightarrow> word32 list \<Rightarrow> word32 list list" where
  "blocks 0 ws = []"
| "blocks (Suc n) ws = take 16 ws # blocks n (drop 16 ws)"

fun sha1_schedule :: "nat \<Rightarrow> word32 list \<Rightarrow> word32 list" where
  "sha1_schedule 0 w = w"
| "sha1_schedule (Suc n) w =
     (let t = length w in
      sha1_schedule n
        (w @ [rotl 1 (w ! (t - 3) XOR w ! (t - 8) XOR w ! (t - 14) XOR w ! (t - 16))]))"

definition sha1_f :: "nat \<Rightarrow> word32 \<Rightarrow> word32 \<Rightarrow> word32 \<Rightarrow> word32" where
  "sha1_f t b c d =
     (if t < 20 then (b AND c) OR (NOT b AND d)
      else if t < 40 then b XOR c XOR d
      else if t < 60 then (b AND c) OR (b AND d) OR (c AND d)
      else b XOR c XOR d)"

definition sha1_k :: "nat \<Rightarrow> word32" where
  "sha1_k t =
     (if t < 20 then 0x5A827999 else if t < 40 then 0x6ED9EBA1
      else if t < 60 then 0x8F1BBCDC else 0xCA62C1D6)"

type_synonym sha1_state = "word32 \<times> word32 \<times> word32 \<times> word32 \<times> word32"

fun sha1_round :: "sha1_state \<Rightarrow> nat \<times> word32 \<Rightarrow> sha1_state" where
  "sha1_round (a, b, c, d, e) (t, w) =
     (rotl 5 a + sha1_f t b c d + e + sha1_k t + w, a, rotl 30 b, c, d)"

fun sha1_block :: "sha1_state \<Rightarrow> word32 list \<Rightarrow> sha1_state" where
  "sha1_block (h0, h1, h2, h3, h4) blk =
     (case foldl sha1_round (h0, h1, h2, h3, h4) (zip [0..<80] (sha1_schedule 64 blk)) of
        (a, b, c, d, e) \<Rightarrow> (h0 + a, h1 + b, h2 + c, h3 + d, h4 + e))"

definition word_bytes :: "word32 \<Rightarrow> nat list" where
  "word_bytes w = map (\<lambda>i. unat (drop_bit (8 * (3 - i)) w) mod 256) [0..<4]"

definition sha1 :: "nat list \<Rightarrow> nat list" where
  "sha1 bs =
     (let ws = be_words (sha1_pad bs) in
      case foldl sha1_block (0x67452301, 0xEFCDAB89, 0x98BADCFE, 0x10325476, 0xC3D2E1F0)
             (blocks (length ws div 16) ws) of
        (a, b, c, d, e) \<Rightarrow> concat (map word_bytes [a, b, c, d, e]))"

definition base64_alphabet :: string where
  "base64_alphabet = ''ABCDEFGHIJKLMNOPQRSTUVWXYZabcdefghijklmnopqrstuvwxyz0123456789+/''"

fun base64 :: "nat list \<Rightarrow> string" where
  "base64 (a # b # c # bs) =
     (let n = (a * 256 + b) * 256 + c in
      [base64_alphabet ! (n div 262144), base64_alphabet ! (n div 4096 mod 64),
       base64_alphabet ! (n div 64 mod 64), base64_alphabet ! (n mod 64)] @ base64 bs)"
| "base64 [a, b] =
     (let n = (a * 256 + b) * 256 in
      [base64_alphabet ! (n div 262144), base64_alphabet ! (n div 4096 mod 64),
       base64_alphabet ! (n div 64 mod 64), CHR ''=''])"
| "base64 [a] =
     (let n = a * 65536 in
      [base64_alphabet ! (n div 262144), base64_alphabet ! (n div 4096 mod 64),
       CHR ''='', CHR ''=''])"
| "base64 [] = []"

definition entitytag :: "string \<Rightarrow> string" where
  "entitytag entity =
     [CHR 0x22] @ hex_nat (length entity) @ ''-'' @
     take 27 (base64 (sha1 (map of_char entity))) @ [CHR 0x22]"

definition weak_etag :: "string \<Rightarrow> string" where
  "weak_etag entity = ''W/'' @ entitytag entity"

section \<open>Requests and responses\<close>

text \<open>
  The standard request methods. (\<^verbatim>\<open>CONNECT\<close> is left out: Node answers it through the
  \<^verbatim>\<open>connect\<close> event and never calls Express. Node's parser also accepts extension
  methods such as those of WebDAV; Express treats them like any method without a route.)
\<close>

datatype http_method = GET | HEAD | POST | PUT | DELETE | OPTIONS | TRACE | PATCH

fun method_name :: "http_method \<Rightarrow> string" where
  "method_name GET = ''GET''"
| "method_name HEAD = ''HEAD''"
| "method_name POST = ''POST''"
| "method_name PUT = ''PUT''"
| "method_name DELETE = ''DELETE''"
| "method_name OPTIONS = ''OPTIONS''"
| "method_name TRACE = ''TRACE''"
| "method_name PATCH = ''PATCH''"

text \<open>
  A request as Node hands it to Express: \<open>req_path\<close> is the pathname of the request target
  (\<^verbatim>\<open>parseurl(req).pathname\<close>, the part before \<^verbatim>\<open>?\<close>; the empty string stands for a target
  without a pathname, where \<^verbatim>\<open>parseurl\<close> gives \<^verbatim>\<open>null\<close>), \<open>req_query\<close> the part after
  \<^verbatim>\<open>?\<close> when there is one, and \<open>req_headers\<close> Node's \<^verbatim>\<open>req.headers\<close> object: header names
  in lower case, one entry per name. The request body is never read by \<^verbatim>\<open>index.js\<close>.
\<close>

record request =
  req_method :: http_method
  req_path :: string
  req_query :: "string option"
  req_headers :: "(string \<times> string) list"

text \<open>
  A response as Express ends it: status code, the reason phrase when the code sets one
  (\<open>None\<close>: Node supplies the standard phrase of the status code), the headers in the
  order they were set, and the bytes of the body. The headers that Node adds on its own
  when it writes the response to the socket (\<^verbatim>\<open>Date\<close>, \<^verbatim>\<open>Connection\<close>, \<^verbatim>\<open>Keep-Alive\<close>) are
  not part of the record.
\<close>

record response =
  statusCode :: nat
  statusMessage :: "string option"
  headers :: "(string \<times> string) list"
  body :: string

definition new_response :: response where
  "new_response = \<lparr>statusCode = 200, statusMessage = None, headers = [], body = []\<rparr>"

definition res_get :: "string \<Rightarrow> response \<Rightarrow> string option" where
  "res_get field res = map_of (headers res) field"

definition res_set :: "string \<Rightarrow> string \<Rightarrow> response \<Rightarrow> response" where
  "res_set field val res = res\<lparr>headers := AList.update field val (headers res)\<rparr>"

definition res_removeHeader :: "string \<Rightarrow> response \<Rightarrow> response" where
  "res_removeHeader field res = res\<lparr>headers := AList.delete field (headers res)\<rparr>"

section \<open>Freshness of a conditional request\<close>

text \<open>
  Package \<^verbatim>\<open>fresh\<close>, which \<^verbatim>\<open>req.fresh\<close> calls with the request's headers and the
  response's \<^verbatim>\<open>ETag\<close> and \<^verbatim>\<open>Last-Modified\<close> headers. A header that is absent or empty is
  falsy in JavaScript (\<open>truthy\<close>).
\<close>

definition truthy :: "string option \<Rightarrow> string option" where
  "truthy v = (case v of None \<Rightarrow> None | Some s \<Rightarrow> if s = [] then None else Some s)"

text \<open>The characters that \<^verbatim>\<open>\s\<close> matches in a string of bytes.\<close>

definition js_space :: "char \<Rightarrow> bool" where
  "js_space c = (of_char c \<in> {9, 10, 11, 12, 13, 32, 160 :: nat})"

text \<open>
  \<^verbatim>\<open>CACHE_CONTROL_NO_CACHE_REGEXP = /(?:^|,)\s*?no-cache\s*?(?:,|$)/\<close>: some element of
  the comma-separated list is \<^verbatim>\<open>no-cache\<close>, white space around it aside.
\<close>

definition cache_control_no_cache :: "string \<Rightarrow> bool" where
  "cache_control_no_cache v =
     list_ex (\<lambda>e. trim_with js_space e = ''no-cache'') (split_on (CHR '','') v)"

text \<open>\<^verbatim>\<open>parseTokenList\<close>: the comma-separated tokens, spaces around each removed.\<close>

definition parseTokenList :: "string \<Rightarrow> string list" where
  "parseTokenList str = map (trim_with (\<lambda>c. c = CHR '' '')) (split_on (CHR '','') str)"

text \<open>
  The comparison of the tokens of \<^verbatim>\<open>If-None-Match\<close> with the response's entity tag: equal,
  or equal up to the weakness prefix \<^verbatim>\<open>W/\<close>.
\<close>

definition etag_matches :: "string \<Rightarrow> string \<Rightarrow> bool" where
  "etag_matches noneMatch etag =
     list_ex (\<lambda>m. m = etag \<or> m = ''W/'' @ etag \<or> ''W/'' @ m = etag) (parseTokenList noneMatch)"

text \<open>
  \<open>fresh v reqHeaders etag\<close>, for a response without a \<^verbatim>\<open>Last-Modified\<close> header: neither
  \<^verbatim>\<open>index.js\<close> nor \<^verbatim>\<open>res.send\<close> sets one, and the library then finds a request stale by
  its \<^verbatim>\<open>If-Modified-Since\<close> header without comparing dates. An unconditional request is
  not fresh; \<^verbatim>\<open>Cache-Control: no-cache\<close> makes a request stale; \<^verbatim>\<open>If-None-Match\<close> is
  satisfied by \<^verbatim>\<open>*\<close> or by a token that matches the entity tag. Express 4 (\<^verbatim>\<open>fresh\<close> 0.5.2)
  goes on to test \<^verbatim>\<open>If-Modified-Since\<close>; Express 5 (\<^verbatim>\<open>fresh\<close> 2.0) lets \<^verbatim>\<open>If-None-Match\<close>
  take precedence.
\<close>

definition fresh :: "express_version \<Rightarrow> (string \<times> string) list \<Rightarrow> string option \<Rightarrow> bool" where
  "fresh v reqHeaders etag =
     (let modifiedSince = truthy (map_of reqHeaders ''if-modified-since'');
          noneMatch = truthy (map_of reqHeaders ''if-none-match'');
          cacheControl = truthy (map_of reqHeaders ''cache-control'')
      in if modifiedSince = None \<and> noneMatch = None then False
         else if (case cacheControl of None \<Rightarrow> False | Some cc \<Rightarrow> cache_control_no_cache cc)
           then False
         else (case noneMatch of
                 None \<Rightarrow> False
               | Some nm \<Rightarrow>
                   (nm = ''*'' \<or>
                    (case truthy etag of None \<Rightarrow> False | Some e \<Rightarrow> etag_matches nm e)) \<and>
                   (v = Express5 \<or> modifiedSince = None)))"

text \<open>\<^verbatim>\<open>req.fresh\<close> (Express, \<^verbatim>\<open>lib/request.js\<close>).\<close>

definition req_fresh :: "express_version \<Rightarrow> request \<Rightarrow> response \<Rightarrow> bool" where
  "req_fresh v req res =
     ((req_method req = GET \<or> req_method req = HEAD) \<and>
      ((200 \<le> statusCode res \<and> statusCode res < 300) \<or> statusCode res = 304) \<and>
      fresh v (req_headers req) (res_get ''ETag'' res))"

section \<open>\<^verbatim>\<open>res.send\<close>\<close>

text \<open>
  \<^verbatim>\<open>res.send(body)\<close> for a string body (Express, \<^verbatim>\<open>lib/response.js\<close>), in the order of
  the library's statements: a string without a content type is sent as HTML in UTF-8;
  \<^verbatim>\<open>Content-Length\<close> is the number of bytes; an \<^verbatim>\<open>ETag\<close> is generated unless one is set;
  a fresh conditional request turns the status into 304; a 204 or 304 response loses
  its content headers and its body, a 205 response its body; a \<^verbatim>\<open>HEAD\<close> request gets
  the headers without the body. (When a content type is already set the library
  rewrites its charset parameter; no caller in this program sets one before sending.)
\<close>

definition res_send :: "express_version \<Rightarrow> request \<Rightarrow> string \<Rightarrow> response \<Rightarrow> response" where
  "res_send v req chunk res =
     (let res1 = (if res_get ''Content-Type'' res = None
                  then res_set ''Content-Type'' ''text/html; charset=utf-8'' res else res);
          res2 = res_set ''Content-Length'' (show_nat (length chunk)) res1;
          res3 = (if res_get ''ETag'' res2 = None
                  then res_set ''ETag'' (weak_etag chunk) res2 else res2);
          res4 = (if req_fresh v req res3 then res3\<lparr>statusCode := 304\<rparr> else res3);
          strip = (statusCode res4 = 204 \<or> statusCode res4 = 304);
          res5 = (if strip
                  then res_removeHeader ''Transfer-Encoding''
                         (res_removeHeader ''Content-Length''
                           (res_removeHeader ''Content-Type'' res4))
                  else res4);
          reset = (statusCode res5 = 205);
          res6 = (if reset
                  then res_removeHeader ''Transfer-Encoding'' (res_set ''Content-Length'' ''0'' res5)
                  else res5);
          chunk1 = (if strip \<or> reset then [] else chunk)
      in res6\<lparr>body := (if req_method req = HEAD then [] else chunk1)\<rparr>)"

section \<open>The final handler\<close>

text \<open>
  When no route answers, Express calls \<^verbatim>\<open>finalhandler\<close>, which writes a 404 response:
  an HTML page with the line \<^verbatim>\<open>Cannot <METHOD> <pathname>\<close>. The pathname goes through
  \<^verbatim>\<open>encodeUrl\<close> (package \<^verbatim>\<open>encodeurl\<close> 2.0) and the whole line through \<^verbatim>\<open>escapeHtml\<close>.

  A pathname is a string of the bytes of the request target, each byte a character of
  Latin-1 (this is how Node decodes the request line).
\<close>

definition hex_digit :: "char \<Rightarrow> bool" where
  "hex_digit c =
     (let n = (of_char c :: nat)
      in (48 \<le> n \<and> n \<le> 57) \<or> (65 \<le> n \<and> n \<le> 70) \<or> (97 \<le> n \<and> n \<le> 102))"

text \<open>
  The character class of \<^verbatim>\<open>ENCODE_CHARS_REGEXP\<close>,
  \<^verbatim>\<open>[^\x21\x23-\x3B\x3D\x3F-\x5F\x61-\x7A\x7C\x7E]\<close>, negated: the characters that
  \<^verbatim>\<open>encodeUrl\<close> leaves alone. \<^verbatim>\<open>%\<close> is one of them.
\<close>

definition url_char :: "char \<Rightarrow> bool" where
  "url_char c =
     (let n = (of_char c :: nat)
      in n = 0x21 \<or> (0x23 \<le> n \<and> n \<le> 0x3B) \<or> n = 0x3D \<or> (0x3F \<le> n \<and> n \<le> 0x5F) \<or>
         (0x61 \<le> n \<and> n \<le> 0x7A) \<or> n = 0x7C \<or> n = 0x7E)"

text \<open>
  \<^verbatim>\<open>encodeURI\<close> on a string of Latin-1 characters: letters, digits and the characters
  \<^verbatim>\<open>;/?:@&=+$,#-_.!~*'()\<close> stay, every other character becomes the percent-encoded bytes
  of its UTF-8 encoding (one byte below 0x80, two bytes from 0x80 to 0xFF).
\<close>

definition percent :: "nat \<Rightarrow> string" where
  "percent n = [CHR ''%'', ''0123456789ABCDEF'' ! (n div 16), ''0123456789ABCDEF'' ! (n mod 16)]"

definition uri_unescaped :: "char \<Rightarrow> bool" where
  "uri_unescaped c =
     (let n = (of_char c :: nat)
      in (48 \<le> n \<and> n \<le> 57) \<or> (65 \<le> n \<and> n \<le> 90) \<or> (97 \<le> n \<and> n \<le> 122) \<or>
         c \<in> set '';/?:@&=+$,#-_.!~*()'' \<or> c = CHR 0x27)"

definition encodeURI_char :: "char \<Rightarrow> string" where
  "encodeURI_char c =
     (let n = (of_char c :: nat)
      in if uri_unescaped c then [c]
         else if n < 128 then percent n
         else percent (192 + n div 64) @ percent (128 + n mod 64))"

definition encodeURI :: "string \<Rightarrow> string" where
  "encodeURI s = concat (map encodeURI_char s)"

text \<open>
  \<^verbatim>\<open>encodeUrl(url)\<close> is \<^verbatim>\<open>url.replace(ENCODE_CHARS_REGEXP, encodeURI)\<close> with

  \<^verbatim>\<open>ENCODE_CHARS_REGEXP = /(?:[^...]|%(?:[^0-9A-Fa-f]|[0-9A-Fa-f][^0-9A-Fa-f]|$))+/g\<close>

  (the replacement of unpaired surrogates that precedes it does nothing on Latin-1
  characters). One round of the group matches, at the head of the string,
  \<^item> a character outside the class above, or
  \<^item> \<^verbatim>\<open>%\<close> and the character after it when that is no hexadecimal digit, or
  \<^item> \<^verbatim>\<open>%\<close>, a hexadecimal digit and the character after it when that is no hexadecimal
    digit, or
  \<^item> \<^verbatim>\<open>%\<close> at the end of the string,

  and nothing else: \<^verbatim>\<open>%\<close> before two hexadecimal digits is left alone, and so is \<^verbatim>\<open>%\<close>
  before one hexadecimal digit that ends the string. The four cases exclude each other,
  so the longest match at a position is the longest sequence of rounds; \<^verbatim>\<open>encodeURI\<close>
  works character by character, so encoding a match is encoding its rounds one after
  the other. When no round matches, the character is copied and the search goes on
  behind it.
\<close>

fun encodeUrl :: "string \<Rightarrow> string" where
  "encodeUrl [] = []"
| "encodeUrl (c # cs) =
     (if \<not> url_char c then encodeURI [c] @ encodeUrl cs
      else if c \<noteq> CHR ''%'' then c # encodeUrl cs
      else (case cs of
              [] \<Rightarrow> encodeURI [c]
            | a # cs1 \<Rightarrow>
                if \<not> hex_digit a then encodeURI [c, a] @ encodeUrl cs1
                else (case cs1 of
                        [] \<Rightarrow> c # encodeUrl cs
                      | b # cs2 \<Rightarrow>
                          if hex_digit b then c # encodeUrl cs
                          else encodeURI [c, a, b] @ encodeUrl cs2)))"

text \<open>\<^verbatim>\<open>escapeHtml\<close> (package \<^verbatim>\<open>escape-html\<close>).\<close>

fun escapeHtml :: "string \<Rightarrow> string" where
  "escapeHtml [] = []"
| "escapeHtml (c # cs) =
     (if c = CHR 0x22 then ''&quot;''
      else if c = CHR ''&'' then ''&amp;''
      else if c = CHR 0x27 then ''&#39;''
      else if c = CHR ''<'' then ''&lt;''
      else if c = CHR ''>'' then ''&gt;''
      else [c]) @ escapeHtml cs"

text \<open>
  \<^verbatim>\<open>createHtmlDocument\<close>: the message is escaped, its line feeds become \<^verbatim>\<open><br>\<close> and its
  pairs of spaces a space and \<^verbatim>\<open>&nbsp;\<close> (\<^verbatim>\<open>.replace(/\n/g, '<br>')\<close> and
  \<^verbatim>\<open>.replace(/\x20{2}/g, ' &nbsp;')\<close>), and the result is set into the page.
\<close>

fun replace_newlines :: "string \<Rightarrow> string" where
  "replace_newlines [] = []"
| "replace_newlines (c # cs) = (if c = CHR 0x0A then ''<br>'' else [c]) @ replace_newlines cs"

fun replace_double_spaces :: "string \<Rightarrow> string" where
  "replace_double_spaces (a # b # cs) =
     (if a = CHR '' '' \<and> b = CHR '' '' then '' &nbsp;'' @ replace_double_spaces cs
      else a # replace_double_spaces (b # cs))"
| "replace_double_spaces cs = cs"

definition createHtmlDocument :: "string \<Rightarrow> string" where
  \<open>createHtmlDocument message =
     ''<!DOCTYPE html>'' @ [CHR 0x0A] @
     ''<html lang="en">'' @ [CHR 0x0A] @
     ''<head>'' @ [CHR 0x0A] @
     ''<meta charset="utf-8">'' @ [CHR 0x0A] @
     ''<title>Error</title>'' @ [CHR 0x0A] @
     ''</head>'' @ [CHR 0x0A] @
     ''<body>'' @ [CHR 0x0A] @
     ''<pre>'' @ replace_double_spaces (replace_newlines (escapeHtml message)) @
     ''</pre>'' @ [CHR 0x0A] @
     ''</body>'' @ [CHR 0x0A] @
     ''</html>'' @ [CHR 0x0A]\<close>

text \<open>
  \<^verbatim>\<open>getResourceName\<close>: the pathname of the original URL; a missing pathname prints as
  \<^verbatim>\<open>null\<close>.
\<close>

definition getResourceName :: "request \<Rightarrow> string" where
  "getResourceName req = (if req_path req = [] then ''null'' else req_path req)"

text \<open>
  The response of \<^verbatim>\<open>finalhandler\<close> when no error was passed to it: status 404 with its
  standard reason phrase, the security headers, and the page, which a \<^verbatim>\<open>HEAD\<close> request
  does not get.
\<close>

definition finalhandler :: "request \<Rightarrow> response \<Rightarrow> response" where
  "finalhandler req res =
     (let msg = ''Cannot '' @ method_name (req_method req) @ '' '' @
                encodeUrl (getResourceName req);
          doc = createHtmlDocument msg;
          res1 = res\<lparr>statusCode := 404, statusMessage := Some ''Not Found''\<rparr>;
          res2 = res_set ''Content-Security-Policy''
                   (''default-src '' @ [CHR 0x27] @ ''none'' @ [CHR 0x27]) res1;
          res3 = res_set ''X-Content-Type-Options'' ''nosniff'' res2;
          res4 = res_set ''Content-Type'' ''text/html; charset=utf-8'' res3;
          res5 = res_set ''Content-Length'' (show_nat (length doc)) res4
      in res5\<lparr>body := (if req_method req = HEAD then [] else doc)\<rparr>)"

section \<open>The router\<close>

text \<open>
  A handler is a JavaScript function. Besides the request and the response object that
  it receives, it can reach the variables of the program (the variables of its module,
  the properties of the global object, \<^verbatim>\<open>app.locals\<close>), read them and assign to them.
  \<open>memory\<close> is the state of these variables, names with their values; a handler takes
  the memory as it finds it and returns, with the response it has ended, the memory as
  it leaves it.
\<close>

type_synonym memory = "(string \<times> string) list"

type_synonym handler = "request \<Rightarrow> response \<Rightarrow> memory \<Rightarrow> response \<times> memory"

text \<open>
  A call \<^verbatim>\<open>app.METHOD(path, handler)\<close> adds one route to the router's stack: the path
  pattern, the method and the handler (the handler of \<^verbatim>\<open>index.js\<close> ends the response and
  never calls \<^verbatim>\<open>next\<close>).
\<close>

record route =
  route_path :: string
  route_method :: http_method
  route_handle :: handler

type_synonym application = "route list"

text \<open>
  \<^verbatim>\<open>Layer.prototype.match\<close> for a pattern without parameters or wildcards, with the
  router's defaults (not strict, not case sensitive). In Express 4 (\<^verbatim>\<open>path-to-regexp\<close>
  0.1) the pattern \<^verbatim>\<open>/\<close> becomes \<^verbatim>\<open>/^\/?$/i\<close> and a pattern \<^verbatim>\<open>/a\<close> or \<^verbatim>\<open>/a/\<close> becomes
  \<^verbatim>\<open>/^\/a\/?$/i\<close>: the pattern's last slash is optional. In Express 5 (\<^verbatim>\<open>path-to-regexp\<close>
  8) the trailing slashes of a pattern other than \<^verbatim>\<open>/\<close> are removed and one trailing
  slash is optional in the path: \<^verbatim>\<open>/\<close> becomes \<^verbatim>\<open>/^(?:\/)(?:\/$)?$/i\<close>, which matches \<^verbatim>\<open>/\<close>
  and \<^verbatim>\<open>//\<close>. Letters match in either case.
\<close>

definition ascii_lower :: "char \<Rightarrow> char" where
  "ascii_lower c =
     (let n = (of_char c :: nat) in if 65 \<le> n \<and> n \<le> 90 then char_of (n + 32) else c)"

definition pattern_stem :: "express_version \<Rightarrow> string \<Rightarrow> string" where
  "pattern_stem v pattern =
     (case v of
        Express4 \<Rightarrow>
          (if pattern \<noteq> [] \<and> last pattern = CHR ''/'' then butlast pattern else pattern)
      | Express5 \<Rightarrow>
          (if pattern = ''/'' then pattern
           else rev (dropWhile (\<lambda>c. c = CHR ''/'') (rev pattern))))"

definition layer_match :: "express_version \<Rightarrow> string \<Rightarrow> string \<Rightarrow> bool" where
  "layer_match v pattern path =
     (let stem = map ascii_lower (pattern_stem v pattern);
          p = map ascii_lower path
      in p = stem \<or> p = stem @ ''/'')"

text \<open>
  \<^verbatim>\<open>Route.prototype._handles_method\<close>: a route handles its own method, and a \<^verbatim>\<open>GET\<close>
  route also handles \<^verbatim>\<open>HEAD\<close>. \<^verbatim>\<open>Route.prototype._options\<close>: the methods a route
  reports for the automatic \<^verbatim>\<open>OPTIONS\<close> response.
\<close>

definition handles_method :: "route \<Rightarrow> http_method \<Rightarrow> bool" where
  "handles_method r m = (route_method r = m \<or> (m = HEAD \<and> route_method r = GET))"

definition route_options :: "route \<Rightarrow> http_method list" where
  "route_options r = (if route_method r = GET then [GET, HEAD] else [route_method r])"

fun appendMethods :: "http_method list \<Rightarrow> http_method list \<Rightarrow> http_method list" where
  "appendMethods list [] = list"
| "appendMethods list (m # ms) =
     appendMethods (if m \<in> set list then list else list @ [m]) ms"

text \<open>
  \<^verbatim>\<open>sendOptionsResponse\<close>: the automatic answer to \<^verbatim>\<open>OPTIONS\<close> on a path that has routes.
  Express 4 sends the methods, joined by commas, through \<^verbatim>\<open>res.send\<close>. In Express 5 the
  router writes the response itself: the distinct methods, sorted and joined by a comma
  and a space, as plain text.
\<close>

definition sendOptionsResponse ::
    "express_version \<Rightarrow> request \<Rightarrow> response \<Rightarrow> http_method list \<Rightarrow> response" where
  "sendOptionsResponse v req res options =
     (case v of
        Express4 \<Rightarrow>
          (let allow = join '','' (map method_name options)
           in res_send v req allow (res_set ''Allow'' allow res))
      | Express5 \<Rightarrow>
          (let allow = join '', '' (sort_strings (remdups (map method_name options)));
               res1 = res_set ''Allow'' allow res;
               res2 = res_set ''Content-Length'' (show_nat (length allow)) res1;
               res3 = res_set ''Content-Type'' ''text/plain'' res2;
               res4 = res_set ''X-Content-Type-Options'' ''nosniff'' res3
           in res4\<lparr>body := allow\<rparr>))"

text \<open>
  The end of the stack (\<^verbatim>\<open>done\<close> in \<^verbatim>\<open>Router.prototype.handle\<close>): the automatic
  \<^verbatim>\<open>OPTIONS\<close> response when some route matched the path, the final handler otherwise.
\<close>

definition router_done ::
    "express_version \<Rightarrow> http_method list \<Rightarrow> request \<Rightarrow> response \<Rightarrow> response" where
  "router_done v options req res =
     (if req_method req = OPTIONS \<and> options \<noteq> [] then sendOptionsResponse v req res options
      else finalhandler req res)"

text \<open>
  The loop of \<^verbatim>\<open>Router.prototype.handle\<close> (\<^verbatim>\<open>next\<close>) over the routes: the first route,
  in the order of registration, whose pattern matches the pathname and which handles the
  method gets the request, and its handler the memory; a route that matches the pathname
  only adds its methods to the \<^verbatim>\<open>OPTIONS\<close> list (Express 4 skips the methods already
  listed, Express 5 removes duplicates when it answers). The router itself leaves the
  memory as it is.
\<close>

fun router_next ::
    "express_version \<Rightarrow> route list \<Rightarrow> http_method list \<Rightarrow> request \<Rightarrow> response \<Rightarrow> memory \<Rightarrow>
     response \<times> memory" where
  "router_next v [] options req res m = (router_done v options req res, m)"
| "router_next v (r # stack) options req res m =
     (if \<not> layer_match v (route_path r) (req_path req)
      then router_next v stack options req res m
      else if handles_method r (req_method req) then route_handle r req res m
      else router_next v stack
             (if req_method req = OPTIONS
              then (case v of
                      Express4 \<Rightarrow> appendMethods options (route_options r)
                    | Express5 \<Rightarrow> options @ route_options r)
              else options)
             req res m)"

text \<open>
  Express marks its responses with \<^verbatim>\<open>X-Powered-By: Express\<close> (\<open>expressInit\<close>). In
  Express 4 this is done by a middleware that Express puts on the router's stack before
  the routes; in Express 5 by \<^verbatim>\<open>app.handle\<close>, before it calls the router.

  \<^verbatim>\<open>Router.prototype.handle\<close>: a request whose target has no pathname leaves the loop
  before the first layer of the stack and goes to the final handler; in Express 4 it has
  therefore not passed the middleware. Every other request passes the middleware (in
  Express 4) and then the routes.
\<close>

definition expressInit :: "response \<Rightarrow> response" where
  "expressInit res = res_set ''X-Powered-By'' ''Express'' res"

definition router_handle ::
    "express_version \<Rightarrow> route list \<Rightarrow> request \<Rightarrow> response \<Rightarrow> memory \<Rightarrow> response \<times> memory" where
  "router_handle v stack req res m =
     (if req_path req = [] then (router_done v [] req res, m)
      else router_next v stack [] req
             (case v of Express4 \<Rightarrow> expressInit res | Express5 \<Rightarrow> res) m)"

text \<open>
  \<^verbatim>\<open>express()\<close> creates an application without routes; \<^verbatim>\<open>app.get(path, handler)\<close>
  registers a \<^verbatim>\<open>GET\<close> route. \<open>app_handle\<close> is the application as Node's request
  listener (\<^verbatim>\<open>app.handle\<close>), called with a new response object.
\<close>

definition express :: application where
  "express = []"

definition app_get :: "string \<Rightarrow> handler \<Rightarrow> application \<Rightarrow> application" where
  "app_get path handler a = a @ [\<lparr>route_path = path, route_method = GET, route_handle = handler\<rparr>]"

definition app_handle ::
    "express_version \<Rightarrow> application \<Rightarrow> request \<Rightarrow> memory \<Rightarrow> response \<times> memory" where
  "app_handle v a req m =
     router_handle v a req
       (case v of Express4 \<Rightarrow> new_response | Express5 \<Rightarrow> expressInit new_response) m"

section \<open>The program: \<^verbatim>\<open>index.js\<close>\<close>

text \<open>
  \<^verbatim>\<open>const PORT = 3000;\<close>
\<close>

definition PORT :: nat where
  "PORT = 3000"

text \<open>
  The string literal of the handler, \<^verbatim>\<open>'Hello World! I am new here '\<close> followed by the
  rocket emoji U+1F680, as the bytes of its UTF-8 encoding.
\<close>

definition greeting :: string where
  "greeting = ''Hello World! I am new here '' @ [CHR 0xF0, CHR 0x9F, CHR 0x9A, CHR 0x80]"

text \<open>
  \<^verbatim>\<open>(req, res) => { res.send('Hello World! I am new here ...'); }\<close>, where \<^verbatim>\<open>res.send\<close> is
  that of the installed Express. The function names no variable other than its
  parameter \<^verbatim>\<open>res\<close>: it returns the memory as it found it.
\<close>

definition root_handler :: "express_version \<Rightarrow> handler" where
  "root_handler v req res m = (res_send v req greeting res, m)"

text \<open>
  \<^verbatim>\<open>const app = express(); app.get('/', ...);\<close>
\<close>

definition app :: "express_version \<Rightarrow> application" where
  "app v = app_get ''/'' (root_handler v) express"

section \<open>The process\<close>

text \<open>
  What the process gets when it binds and listens on a port: \<open>None\<close> when the listener
  is established, otherwise the error that Node reports. An error has the code and
  the description of the system error and the address (for a port in use:
  \<^verbatim>\<open>EADDRINUSE\<close>, \<^verbatim>\<open>address already in use\<close>, on the address \<^verbatim>\<open>::\<close>). When nothing catches
  it, Node prints a report around its message: before the message the lines that show
  where the error was thrown (\<open>err_thrown_at\<close>), after it the stack trace, the fields of
  the error object and Node's version (\<open>err_trace\<close>). These lines name files, line numbers
  and versions of the installation; the model takes them as they come with the error.
\<close>

record listen_error =
  err_code :: string
  err_description :: string
  err_address :: string
  err_thrown_at :: "string list"
  err_trace :: "string list"

type_synonym os_listen = "nat \<Rightarrow> listen_error option"




text \<open>
  The signals that ask a process to end, and their numbers.
\<close>

datatype signal = SIGINT | SIGTERM

fun signal_number :: "signal \<Rightarrow> nat" where
  "signal_number SIGINT = 2"
| "signal_number SIGTERM = 15"

text \<open>
  The observable state of the Node process: the application's route table, the port of
  its listener (\<open>None\<close>: no listener), the lines written to standard output and to
  standard error, the exit status (\<open>None\<close>: running), the responses written so far, and
  the memory of the program.

  A process also has the listeners that the program has registered for signals with
  \<^verbatim>\<open>process.on\<close>. A listener is a JavaScript function as well: it may do to the state of
  the process whatever it is written to do (close the server, log, end the process).
\<close>

record process_state =
  router :: application
  listening :: "nat option"
  stdout :: "string list"
  stderr :: "string list"
  exit_status :: "nat option"
  sent :: "response list"
  memory :: memory

record process = process_state +
  signal_listeners :: "signal \<Rightarrow> (process_state \<Rightarrow> process_state) option"

definition console_log :: "string \<Rightarrow> process \<Rightarrow> process" where
  "console_log line p = p\<lparr>stdout := stdout p @ [line]\<rparr>"

text \<open>
  The message of the error of a failed \<^verbatim>\<open>listen\<close>, and Node's report of the error when
  nothing catches it.
\<close>

definition listen_error_message :: "listen_error \<Rightarrow> nat \<Rightarrow> string" where
  "listen_error_message e port =
     ''Error: listen '' @ err_code e @ '': '' @ err_description e @ '' '' @
     err_address e @ '':'' @ show_nat port"

definition error_report :: "listen_error \<Rightarrow> nat \<Rightarrow> string list" where
  "error_report e port = err_thrown_at e @ [listen_error_message e port] @ err_trace e"

text \<open>
  An exception that nothing catches: Node prints its report to standard error and exits
  with status 1.
\<close>

definition uncaught_exception :: "string list \<Rightarrow> process \<Rightarrow> process" where
  "uncaught_exception report p = p\<lparr>stderr := stderr p @ report, exit_status := Some 1\<rparr>"

text \<open>
  \<^verbatim>\<open>app.listen(port, callback)\<close>: Express creates an HTTP server with the application as
  its request listener and calls \<^verbatim>\<open>server.listen(port, callback)\<close>. The process has
  written nothing yet, its memory holds no variable and no signal has a listener
  (\<^verbatim>\<open>index.js\<close> declares constants only, and calls nothing before \<^verbatim>\<open>app.listen\<close> that
  writes or registers). When the listener is established Node emits \<^verbatim>\<open>listening\<close> and
  runs the callback once, without argument. When it is not, Node emits \<^verbatim>\<open>error\<close> on the
  server.
  \<^item> Express 4 leaves the \<^verbatim>\<open>error\<close> event alone. \<^verbatim>\<open>index.js\<close> attaches no \<^verbatim>\<open>error\<close>
    listener either, and an \<^verbatim>\<open>error\<close> event without a listener is thrown as an
    exception.
  \<^item> Express 5 registers the callback for the \<^verbatim>\<open>error\<close> event as well
    (\<^verbatim>\<open>server.once('error', done)\<close>): the callback runs with the error as its argument.
    Afterwards nothing keeps the event loop alive, and unless the callback has ended
    the process it exits with status 0.
\<close>

definition app_listen ::
    "express_version \<Rightarrow> application \<Rightarrow> nat \<Rightarrow> (listen_error option \<Rightarrow> process \<Rightarrow> process) \<Rightarrow>
     os_listen \<Rightarrow> process" where
  "app_listen v a port callback os =
     (let p = \<lparr>router = a, listening = None, stdout = [], stderr = [],
                exit_status = None, sent = [], memory = [],
                signal_listeners = (\<lambda>s. None)\<rparr>
      in case os port of
           None \<Rightarrow> callback None (p\<lparr>listening := Some port\<rparr>)
         | Some e \<Rightarrow>
             (case v of
                Express4 \<Rightarrow> uncaught_exception (error_report e port) p
              | Express5 \<Rightarrow>
                  (let p' = callback (Some e) p
                   in if exit_status p' = None then p'\<lparr>exit_status := Some 0\<rparr> else p')))"

text \<open>
  \<^verbatim>\<open>() => { console.log(`Server is running on http://localhost:${PORT}`); }\<close>: the
  callback takes no parameter, so an error passed to it is ignored.
\<close>

definition listen_callback :: "listen_error option \<Rightarrow> process \<Rightarrow> process" where
  "listen_callback err p =
     console_log (''Server is running on http://localhost:'' @ show_nat PORT) p"

text \<open>
  The whole of \<^verbatim>\<open>index.js\<close>, run with Express \<open>v\<close> in an environment \<open>env\<close>
  (\<^verbatim>\<open>process.env\<close>, as a list of variables and values) on a machine \<open>os\<close>:
  \<^verbatim>\<open>app.listen(PORT, ...)\<close> on the application built above. The program never reads
  \<^verbatim>\<open>process.env\<close>, and it never calls \<^verbatim>\<open>process.on\<close>.
\<close>

definition main :: "express_version \<Rightarrow> (string \<times> string) list \<Rightarrow> os_listen \<Rightarrow> process" where
  "main v env os = app_listen v (app v) PORT listen_callback os"


text \<open>
  What happens to a started process: a request arrives, or a signal.

  A request is answered by the application while the process runs and listens. The
  handler gets the memory of the process and leaves its memory to the process. The
  handler of \<^verbatim>\<open>index.js\<close> is synchronous, so a request is answered within the event that
  delivers it.

  A signal that has a listener is given to the listener. A signal without a listener
  takes its default action: Node ends the process at once, with status 128 plus the
  signal's number.
\<close>

datatype event = Request request | Signal signal

fun step :: "express_version \<Rightarrow> event \<Rightarrow> process \<Rightarrow> process" where
  "step v (Request req) p =
     (if exit_status p = None \<and> listening p \<noteq> None
      then (case app_handle v (router p) req (memory p) of
              (res, m) \<Rightarrow> p\<lparr>sent := sent p @ [res], memory := m\<rparr>)
      else p)"
| "step v (Signal s) p =
     (if exit_status p \<noteq> None then p
      else (case signal_listeners p s of
              None \<Rightarrow> p\<lparr>listening := None, exit_status := Some (128 + signal_number s)\<rparr>
            | Some listener \<Rightarrow>
                process_state.extend (listener (process_state.truncate p))
                  (process_state.more p)))"

fun run :: "express_version \<Rightarrow> event list \<Rightarrow> process \<Rightarrow> process" where
  "run v [] p = p"
| "run v (ev # evs) p = run v evs (step v ev p)"

section \<open>Facts about the runtime and the program\<close>

declare to_string_radix.simps [simp del]

lemma show_nat_31: "show_nat 31 = ''31''"
  by (simp add: show_nat_def to_string_radix.simps digit_chars_def)

lemma show_nat_3000: "show_nat 3000 = ''3000''"
  by (simp add: show_nat_def to_string_radix.simps digit_chars_def)

lemma length_greeting: "length greeting = 31"
  by (simp add: greeting_def)

lemma ascii_lower_slash: "ascii_lower c = CHR ''/'' \<longleftrightarrow> c = CHR ''/''"
proof (cases "65 \<le> (of_char c :: nat) \<and> (of_char c :: nat) \<le> 90")
  case True
  then have "(of_char (ascii_lower c) :: nat) = of_char c + 32"
    by (simp add: ascii_lower_def Let_def)
  with True have "(of_char (ascii_lower c) :: nat) \<noteq> of_char (CHR ''/'')" and "c \<noteq> CHR ''/''"
    by auto
  then show ?thesis by auto
next
  case False
  then show ?thesis by (auto simp: ascii_lower_def Let_def)
qed

lemma ascii_lower_of_slash: "ascii_lower (CHR ''/'') = CHR ''/''"
  by (simp add: ascii_lower_def)

lemma map_ascii_lower_slashes:
  "map ascii_lower path = ''/'' \<longleftrightarrow> path = ''/''"
  "map ascii_lower path = ''//'' \<longleftrightarrow> path = ''//''"
  by (auto simp: ascii_lower_slash map_eq_Cons_conv)

text \<open>The paths that the pattern \<^verbatim>\<open>/\<close> matches.\<close>

lemma layer_match_root:
  "layer_match v ''/'' path \<longleftrightarrow>
     (case v of Express4 \<Rightarrow> path = ''/'' \<or> path = [] | Express5 \<Rightarrow> path = ''/'' \<or> path = ''//'')"
  by (cases v)
     (auto simp: layer_match_def pattern_stem_def Let_def ascii_lower_of_slash
      map_ascii_lower_slashes)

lemma res_send_init:
  "res_send v r chunk (expressInit new_response) =
     (if (req_method r = GET \<or> req_method r = HEAD) \<and>
         fresh v (req_headers r) (Some (weak_etag chunk))
      then \<lparr>statusCode = 304, statusMessage = None,
            headers = [(''X-Powered-By'', ''Express''), (''ETag'', weak_etag chunk)],
            body = []\<rparr>
      else \<lparr>statusCode = 200, statusMessage = None,
            headers = [(''X-Powered-By'', ''Express''),
                       (''Content-Type'', ''text/html; charset=utf-8''),
                       (''Content-Length'', show_nat (length chunk)),
                       (''ETag'', weak_etag chunk)],
            body = (if req_method r = HEAD then [] else chunk)\<rparr>)"
proof -
  let ?init = "expressInit new_response"
  let ?res1 = "\<lparr>statusCode = 200, statusMessage = None,
                headers = [(''X-Powered-By'', ''Express''),
                           (''Content-Type'', ''text/html; charset=utf-8'')],
                body = []\<rparr>"
  let ?res2 = "\<lparr>statusCode = 200, statusMessage = None,
                headers = [(''X-Powered-By'', ''Express''),
                           (''Content-Type'', ''text/html; charset=utf-8''),
                           (''Content-Length'', show_nat (length chunk))],
                body = []\<rparr>"
  let ?res3 = "\<lparr>statusCode = 200, statusMessage = None,
                headers = [(''X-Powered-By'', ''Express''),
                           (''Content-Type'', ''text/html; charset=utf-8''),
                           (''Content-Length'', show_nat (length chunk)),
                           (''ETag'', weak_etag chunk)],
                body = []\<rparr>"
  have s1: "(if res_get ''Content-Type'' ?init = None
             then res_set ''Content-Type'' ''text/html; charset=utf-8'' ?init else ?init) = ?res1"
    by (simp add: expressInit_def new_response_def res_get_def res_set_def)
  have s2: "res_set ''Content-Length'' (show_nat (length chunk)) ?res1 = ?res2"
    by (simp add: res_set_def)
  have s3: "(if res_get ''ETag'' ?res2 = None
             then res_set ''ETag'' (weak_etag chunk) ?res2 else ?res2) = ?res3"
    by (simp add: res_get_def res_set_def)
  have s4: "req_fresh v r ?res3 \<longleftrightarrow>
      (req_method r = GET \<or> req_method r = HEAD) \<and>
      fresh v (req_headers r) (Some (weak_etag chunk))"
    by (simp add: req_fresh_def res_get_def)
  have s5: "res_removeHeader ''Transfer-Encoding''
              (res_removeHeader ''Content-Length''
                (res_removeHeader ''Content-Type''
                  \<lparr>statusCode = 304, statusMessage = None,
                   headers = [(''X-Powered-By'', ''Express''),
                              (''Content-Type'', ''text/html; charset=utf-8''),
                              (''Content-Length'', show_nat (length chunk)),
                              (''ETag'', weak_etag chunk)],
                   body = []\<rparr>)) =
            \<lparr>statusCode = 304, statusMessage = None,
             headers = [(''X-Powered-By'', ''Express''), (''ETag'', weak_etag chunk)],
             body = []\<rparr>"
    by (simp add: res_removeHeader_def)
  show ?thesis
    unfolding res_send_def Let_def s1 s2 s3 s4
    by (simp add: s5)
qed

text \<open>
  The three ways in which the router of the program answers a request. In each the
  memory is returned as it was given.
\<close>

lemma app_handle_root:
  assumes "req_path r = ''/'' \<or> (v = Express5 \<and> req_path r = ''//'')"
    and "req_method r = GET \<or> req_method r = HEAD"
  shows "app_handle v (app v) r m = (res_send v r greeting (expressInit new_response), m)"
  using assms
  by (cases v)
     (auto simp: app_handle_def router_handle_def app_def app_get_def express_def
      layer_match_root handles_method_def root_handler_def)

lemma app_handle_options:
  assumes "req_path r = ''/'' \<or> (v = Express5 \<and> req_path r = ''//'')"
    and "req_method r = OPTIONS"
  shows "app_handle v (app v) r m =
         (sendOptionsResponse v r (expressInit new_response) [GET, HEAD], m)"
  using assms
  by (cases v)
     (auto simp: app_handle_def router_handle_def app_def app_get_def express_def
      layer_match_root handles_method_def route_options_def router_done_def)

lemma app_handle_unmatched:
  assumes "req_method r \<notin> {GET, HEAD, OPTIONS} \<or>
           (req_path r \<noteq> ''/'' \<and> (v = Express4 \<or> req_path r \<noteq> ''//''))"
  shows "app_handle v (app v) r m =
         (finalhandler r
            (if v = Express4 \<and> req_path r = [] then new_response
             else expressInit new_response), m)"
  using assms
  by (cases v; cases "req_method r")
     (auto simp: app_handle_def router_handle_def app_def app_get_def express_def
      layer_match_root handles_method_def route_options_def router_done_def)

text \<open>The 404 response of the final handler, whatever the response object it is given.\<close>

lemma finalhandler_fields:
  "statusCode (finalhandler r res) = 404"
  "statusMessage (finalhandler r res) = Some ''Not Found''"
  "res_get ''Content-Type'' (finalhandler r res) = Some ''text/html; charset=utf-8''"
  "body (finalhandler r res) =
     (if req_method r = HEAD then []
      else createHtmlDocument
             (''Cannot '' @ method_name (req_method r) @ '' '' @ encodeUrl (getResourceName r)))"
  by (simp_all add: finalhandler_def res_set_def res_get_def Let_def AList.update_conv')

text \<open>The status of the automatic \<^verbatim>\<open>OPTIONS\<close> response.\<close>

lemma options_root_status:
  assumes "req_method r = OPTIONS"
  shows "statusCode (sendOptionsResponse v r (expressInit new_response) [GET, HEAD]) = 200"
proof (cases v)
  case Express4
  let ?init = "res_set ''Allow'' ''GET,HEAD'' (expressInit new_response)"
  let ?res1 = "\<lparr>statusCode = 200, statusMessage = None,
                headers = [(''X-Powered-By'', ''Express''), (''Allow'', ''GET,HEAD''),
                           (''Content-Type'', ''text/html; charset=utf-8'')],
                body = []\<rparr>"
  let ?res2 = "\<lparr>statusCode = 200, statusMessage = None,
                headers = [(''X-Powered-By'', ''Express''), (''Allow'', ''GET,HEAD''),
                           (''Content-Type'', ''text/html; charset=utf-8''),
                           (''Content-Length'', ''8'')],
                body = []\<rparr>"
  let ?res3 = "\<lparr>statusCode = 200, statusMessage = None,
                headers = [(''X-Powered-By'', ''Express''), (''Allow'', ''GET,HEAD''),
                           (''Content-Type'', ''text/html; charset=utf-8''),
                           (''Content-Length'', ''8''),
                           (''ETag'', weak_etag ''GET,HEAD'')],
                body = []\<rparr>"
  have len: "show_nat (length ''GET,HEAD'') = ''8''"
    by (simp add: show_nat_def to_string_radix.simps digit_chars_def)
  have s1: "(if res_get ''Content-Type'' ?init = None
             then res_set ''Content-Type'' ''text/html; charset=utf-8'' ?init else ?init) = ?res1"
    by (simp add: expressInit_def new_response_def res_get_def res_set_def)
  have s2: "res_set ''Content-Length'' ''8'' ?res1 = ?res2"
    by (simp add: res_set_def)
  have s3: "(if res_get ''ETag'' ?res2 = None
             then res_set ''ETag'' (weak_etag ''GET,HEAD'') ?res2 else ?res2) = ?res3"
    by (simp add: res_get_def res_set_def)
  have s4: "req_fresh v r ?res3 \<longleftrightarrow> False"
    using assms by (simp add: req_fresh_def)
  have "res_send v r ''GET,HEAD'' ?init = ?res3\<lparr>body := ''GET,HEAD''\<rparr>"
    unfolding res_send_def Let_def len s1 s2 s3 s4
    using assms by simp
  with Express4 show ?thesis
    by (simp add: sendOptionsResponse_def Let_def)
next
  case Express5
  then show ?thesis
    by (simp add: sendOptionsResponse_def Let_def res_set_def expressInit_def new_response_def)
qed

text \<open>
  An encoded pathname contains neither a space nor a line feed: what \<^verbatim>\<open>encodeUrl\<close> does
  not copy from its character class is the output of \<^verbatim>\<open>encodeURI\<close>.
\<close>

lemma of_char_less_256: "(of_char c :: nat) < 256"
proof -
  have "(of_char c :: nat) mod 256 < 256"
    by simp
  then show ?thesis
    by simp
qed

lemma hex_digits_nth:
  assumes "k < 16"
  shows "''0123456789ABCDEF'' ! k \<in> set ''0123456789ABCDEF''"
  using assms by (intro nth_mem) simp

lemma set_percent:
  assumes "n < 256"
  shows "set (percent n) \<subseteq> set ''%0123456789ABCDEF''"
proof -
  from assms have "n div 16 < 16" and "n mod 16 < 16"
    by simp_all
  then have "''0123456789ABCDEF'' ! (n div 16) \<in> set ''0123456789ABCDEF''"
    and "''0123456789ABCDEF'' ! (n mod 16) \<in> set ''0123456789ABCDEF''"
    by (simp_all only: hex_digits_nth)
  then show ?thesis
    unfolding percent_def by auto
qed

lemma utf8_bytes:
  fixes n :: nat
  assumes "n < 256"
  shows "192 + n div 64 < 256" and "128 + n mod 64 < 256"
proof -
  from assms have "n < 4 * 64"
    by simp
  then have "n div 64 < 4"
    by (rule less_mult_imp_div_less)
  then show "192 + n div 64 < 256"
    by simp
  have "n mod 64 < 64"
    by simp
  then show "128 + n mod 64 < 256"
    by linarith
qed

lemma percent_not_blank:
  assumes "n < 256" and "c \<in> set (percent n)"
  shows "c \<noteq> CHR '' '' \<and> c \<noteq> CHR 0x0A"
proof -
  from assms have "c \<in> set ''%0123456789ABCDEF''"
    using set_percent by blast
  then show ?thesis
    by auto
qed

lemma uri_unescaped_not_blank: "uri_unescaped c \<Longrightarrow> c \<noteq> CHR '' '' \<and> c \<noteq> CHR 0x0A"
proof -
  have "\<not> uri_unescaped (CHR '' '')" and "\<not> uri_unescaped (CHR 0x0A)"
    by (simp_all add: uri_unescaped_def)
  then show "uri_unescaped c \<Longrightarrow> c \<noteq> CHR '' '' \<and> c \<noteq> CHR 0x0A"
    by auto
qed

lemma blank_encodeURI_char:
  assumes "c' \<in> set (encodeURI_char c)"
  shows "c' \<noteq> CHR '' '' \<and> c' \<noteq> CHR 0x0A"
proof -
  let ?n = "of_char c :: nat"
  have n: "?n < 256" by (rule of_char_less_256)
  then have n2: "192 + ?n div 64 < 256" and n3: "128 + ?n mod 64 < 256"
    by (rule utf8_bytes)+
  show ?thesis
  proof (cases "uri_unescaped c")
    case True
    then have "encodeURI_char c = [c]"
      by (simp add: encodeURI_char_def)
    with assms True show ?thesis
      by (simp add: uri_unescaped_not_blank)
  next
    case False
    show ?thesis
    proof (cases "?n < 128")
      case True
      with False have "encodeURI_char c = percent ?n"
        by (simp add: encodeURI_char_def)
      with assms have "c' \<in> set (percent ?n)"
        by simp
      with n show ?thesis
        by (rule percent_not_blank)
    next
      case large: False
      with False have "encodeURI_char c = percent (192 + ?n div 64) @ percent (128 + ?n mod 64)"
        by (simp add: encodeURI_char_def Let_def)
      with assms have "c' \<in> set (percent (192 + ?n div 64)) \<or> c' \<in> set (percent (128 + ?n mod 64))"
        by simp
      with n2 n3 show ?thesis
        using percent_not_blank by blast
    qed
  qed
qed

lemma blank_encodeURI: "c' \<in> set (encodeURI s) \<Longrightarrow> c' \<noteq> CHR '' '' \<and> c' \<noteq> CHR 0x0A"
  using blank_encodeURI_char by (fastforce simp: encodeURI_def)

lemma url_char_not_blank: "url_char c \<Longrightarrow> c \<noteq> CHR '' '' \<and> c \<noteq> CHR 0x0A"
  by (auto simp: url_char_def)

lemma blank_encodeUrl: "c' \<in> set (encodeUrl s) \<Longrightarrow> c' \<noteq> CHR '' '' \<and> c' \<noteq> CHR 0x0A"
proof (induction s arbitrary: c' rule: encodeUrl.induct)
  case 1
  then show ?case by simp
next
  case (2 c cs)
  note enc = blank_encodeURI
  show ?case
  proof (cases "url_char c")
    case False
    with "2.prems" have "c' \<in> set (encodeURI [c]) \<or> c' \<in> set (encodeUrl cs)"
      by simp
    with False "2.IH"(1) enc show ?thesis
      by blast
  next
    case True
    show ?thesis
    proof (cases "c = CHR ''%''")
      case other: False
      with True "2.prems" have "c' = c \<or> c' \<in> set (encodeUrl cs)"
        by simp
      with True other "2.IH"(2) url_char_not_blank show ?thesis
        by blast
    next
      case pct: True
      show ?thesis
      proof (cases cs)
        case Nil
        with True pct "2.prems" have "c' \<in> set (encodeURI [c])"
          by simp
        then show ?thesis by (rule enc)
      next
        case (Cons a cs1)
        show ?thesis
        proof (cases "hex_digit a")
          case False
          with True pct Cons "2.prems" have
            "c' \<in> set (encodeURI [c, a]) \<or> c' \<in> set (encodeUrl cs1)"
            by simp
          with True pct Cons False "2.IH"(3) enc show ?thesis
            by blast
        next
          case hex: True
          show ?thesis
          proof (cases cs1)
            case Nil
            with True pct Cons hex "2.prems" have "c' = c \<or> c' \<in> set (encodeUrl cs)"
              by simp
            with True pct Cons hex Nil "2.IH"(4) url_char_not_blank show ?thesis
              by blast
          next
            case inner: (Cons b cs2)
            show ?thesis
            proof (cases "hex_digit b")
              case True
              with \<open>url_char c\<close> pct Cons hex inner "2.prems" have
                "c' = c \<or> c' \<in> set (encodeUrl cs)"
                by simp
              with \<open>url_char c\<close> pct Cons hex inner True "2.IH"(5) url_char_not_blank
              show ?thesis
                by blast
            next
              case False
              with \<open>url_char c\<close> pct Cons hex inner "2.prems" have
                "c' \<in> set (encodeURI [c, a, b]) \<or> c' \<in> set (encodeUrl cs2)"
                by simp
              with \<open>url_char c\<close> pct Cons hex inner False "2.IH"(6) enc show ?thesis
                by blast
            qed
          qed
        qed
      qed
    qed
  qed
qed


text \<open>
  The line of the error page: for a message made of \<^verbatim>\<open>Cannot\<close>, a method and an encoded
  pathname, the replacements of \<^verbatim>\<open>createHtmlDocument\<close> find nothing to replace.
\<close>

lemma escapeHtml_append: "escapeHtml (xs @ ys) = escapeHtml xs @ escapeHtml ys"
  by (induction xs) simp_all

lemma escapeHtml_method_name: "escapeHtml (method_name m) = method_name m"
  by (cases m) simp_all

lemma escapeHtml_plain:
  assumes "c \<in> set (escapeHtml s)" and "c = CHR '' '' \<or> c = CHR 0x0A"
  shows "c \<in> set s"
  using assms by (induction s) (auto split: if_splits)

lemma replace_newlines_plain: "CHR 0x0A \<notin> set s \<Longrightarrow> replace_newlines s = s"
  by (induction s) auto

lemma replace_double_spaces_plain: "CHR '' '' \<notin> set s \<Longrightarrow> replace_double_spaces s = s"
  by (induction s rule: replace_double_spaces.induct) auto

lemma replace_double_spaces_space:
  "CHR '' '' \<notin> set s \<Longrightarrow> replace_double_spaces (CHR '' '' # s) = CHR '' '' # s"
  by (cases s) (auto simp: replace_double_spaces_plain)

lemma escaped_pathname_plain:
  "CHR '' '' \<notin> set (escapeHtml (encodeUrl p))" "CHR 0x0A \<notin> set (escapeHtml (encodeUrl p))"
  using escapeHtml_plain blank_encodeUrl by blast+

lemma error_line:
  "replace_double_spaces (replace_newlines (escapeHtml
     (''Cannot '' @ method_name m @ '' '' @ encodeUrl p))) =
   ''Cannot '' @ method_name m @ '' '' @ escapeHtml (encodeUrl p)"
proof -
  let ?e = "escapeHtml (encodeUrl p)"
  have "escapeHtml (''Cannot '' @ method_name m @ '' '' @ encodeUrl p) =
      ''Cannot '' @ method_name m @ '' '' @ ?e"
    by (simp add: escapeHtml_append escapeHtml_method_name)
  moreover have "CHR 0x0A \<notin> set (''Cannot '' @ method_name m @ '' '' @ ?e)"
    using escaped_pathname_plain(2) [of p] by (cases m) simp_all
  moreover have "replace_double_spaces (''Cannot '' @ method_name m @ '' '' @ ?e) =
      ''Cannot '' @ method_name m @ '' '' @ ?e"
    using escaped_pathname_plain(1) [of p]
    by (cases m) (simp_all add: replace_double_spaces_space)
  ultimately show ?thesis
    by (simp add: replace_newlines_plain)
qed

text \<open>The error page does not contain the words \<^verbatim>\<open>Not Found\<close>.\<close>

lemma str_includes_set: "str_includes xs n \<Longrightarrow> set n \<subseteq> set xs"
proof (induction xs)
  case Nil
  then show ?case by simp
next
  case (Cons c cs)
  from Cons.prems consider "take (length n) (c # cs) = n" | "str_includes cs n"
    by auto
  then show ?case
  proof cases
    case 1
    then have "set n = set (take (length n) (c # cs))"
      by simp
    also have "\<dots> \<subseteq> set (c # cs)"
      by (rule set_take_subset)
    finally show ?thesis .
  next
    case 2
    with Cons.IH show ?thesis by auto
  qed
qed

lemma not_found_absent:
  "\<not> str_includes
        (createHtmlDocument (''Cannot '' @ method_name m @ '' '' @ encodeUrl p)) ''Not Found''"
proof -
  let ?e = "escapeHtml (encodeUrl p)"
  have tail: "\<not> str_includes (?e @ rest) ''Not Found''" if "CHR '' '' \<notin> set rest" for rest
  proof
    assume "str_includes (?e @ rest) ''Not Found''"
    then have "set ''Not Found'' \<subseteq> set (?e @ rest)"
      by (rule str_includes_set)
    then have "CHR '' '' \<in> set (?e @ rest)"
      by simp
    with that escaped_pathname_plain(1) [of p] show False
      by simp
  qed
  show ?thesis
    unfolding createHtmlDocument_def error_line
    by (cases m) (simp_all add: tail)
qed

text \<open>The process after startup.\<close>

lemma main_listening:
  assumes "os PORT = None"
  shows "main v env os =
     \<lparr>router = app v, listening = Some 3000,
      stdout = [''Server is running on http://localhost:3000''], stderr = [],
      exit_status = None, sent = [], memory = [], signal_listeners = (\<lambda>s. None)\<rparr>"
  using assms
  by (simp add: main_def app_listen_def listen_callback_def console_log_def PORT_def
      show_nat_3000)

lemma main_failed:
  assumes "os PORT = Some e"
  shows "main v env os =
     (case v of
        Express4 \<Rightarrow>
          \<lparr>router = app v, listening = None, stdout = [],
           stderr = err_thrown_at e @ [listen_error_message e PORT] @ err_trace e,
           exit_status = Some 1, sent = [], memory = [], signal_listeners = (\<lambda>s. None)\<rparr>
      | Express5 \<Rightarrow>
          \<lparr>router = app v, listening = None,
           stdout = [''Server is running on http://localhost:3000''], stderr = [],
           exit_status = Some 0, sent = [], memory = [], signal_listeners = (\<lambda>s. None)\<rparr>)"
  using assms
  by (cases v)
     (simp_all add: main_def app_listen_def uncaught_exception_def error_report_def
      listen_callback_def console_log_def PORT_def show_nat_3000)

lemma main_started:
  "router (main v env os) = app v" "sent (main v env os) = []" "memory (main v env os) = []"
  "signal_listeners (main v env os) = (\<lambda>s. None)"
  "exit_status (main v env os) = None \<longleftrightarrow> os PORT = None"
  "exit_status (main v env os) = None \<Longrightarrow> listening (main v env os) = Some 3000"
  by (cases "os PORT"; cases v; simp add: main_listening main_failed)+

text \<open>
  The application of the program answers without reading the memory and returns it
  unchanged.
\<close>

lemma app_handle_pure: "app_handle v (app v) r m = (fst (app_handle v (app v) r []), m)"
proof -
  consider
      (root) "req_path r = ''/'' \<or> (v = Express5 \<and> req_path r = ''//'')"
        "req_method r = GET \<or> req_method r = HEAD"
    | (options) "req_path r = ''/'' \<or> (v = Express5 \<and> req_path r = ''//'')"
        "req_method r = OPTIONS"
    | (unmatched) "req_method r \<notin> {GET, HEAD, OPTIONS} \<or>
        (req_path r \<noteq> ''/'' \<and> (v = Express4 \<or> req_path r \<noteq> ''//''))"
    by (cases v) auto
  then show ?thesis
  proof cases
    case root
    then show ?thesis by (simp only: app_handle_root fst_conv)
  next
    case options
    then show ?thesis by (simp only: app_handle_options fst_conv)
  next
    case unmatched
    then show ?thesis by (simp only: app_handle_unmatched fst_conv)
  qed
qed

text \<open>
  Runs of events. A process that has ended stays as it is. While no signal has a
  listener, events leave the route table, the output and the listeners as they are, and
  a process that is still running has kept its listener.
\<close>

lemma run_append: "run v (evs @ evs') p = run v evs' (run v evs p)"
  by (induction evs arbitrary: p) simp_all

lemma step_exited: "exit_status p \<noteq> None \<Longrightarrow> step v ev p = p"
  by (cases ev) auto

lemma run_exited: "exit_status p \<noteq> None \<Longrightarrow> run v evs p = p"
  by (induction evs arbitrary: p) (simp_all add: step_exited)

lemma step_frame:
  assumes "signal_listeners p = (\<lambda>s. None)"
  shows "signal_listeners (step v ev p) = (\<lambda>s. None)"
    and "router (step v ev p) = router p"
    and "stdout (step v ev p) = stdout p"
    and "stderr (step v ev p) = stderr p"
  using assms by (cases ev; simp split: prod.splits)+

lemma run_frame:
  assumes "signal_listeners p = (\<lambda>s. None)"
  shows "signal_listeners (run v evs p) = (\<lambda>s. None) \<and> router (run v evs p) = router p \<and>
         stdout (run v evs p) = stdout p \<and> stderr (run v evs p) = stderr p"
  using assms
proof (induction evs arbitrary: p)
  case Nil
  then show ?case by simp
next
  case (Cons ev evs)
  from Cons.prems have "signal_listeners (step v ev p) = (\<lambda>s. None)"
    by (rule step_frame)
  from Cons.IH [OF this] Cons.prems show ?case
    by (simp add: step_frame)
qed

lemma step_running:
  assumes "signal_listeners p = (\<lambda>s. None)" and "exit_status (step v ev p) = None"
  shows "exit_status p = None \<and> listening (step v ev p) = listening p"
  using assms by (cases ev) (auto split: if_splits prod.splits)

lemma run_running:
  assumes "signal_listeners p = (\<lambda>s. None)" and "exit_status (run v evs p) = None"
  shows "exit_status p = None \<and> listening (run v evs p) = listening p"
  using assms
proof (induction evs arbitrary: p)
  case Nil
  then show ?case by simp
next
  case (Cons ev evs)
  from Cons.prems(1) have quiet: "signal_listeners (step v ev p) = (\<lambda>s. None)"
    by (rule step_frame)
  from Cons.prems(2) have "exit_status (run v evs (step v ev p)) = None"
    by simp
  with quiet have "exit_status (step v ev p) = None \<and>
      listening (run v evs (step v ev p)) = listening (step v ev p)"
    by (rule Cons.IH)
  then show ?case
    using step_running [OF Cons.prems(1), of v ev] by simp
qed

text \<open>Requests to the program.\<close>

lemma step_request:
  assumes "exit_status p = None" and "listening p \<noteq> None" and "router p = app v"
  shows "step v (Request r) p = p\<lparr>sent := sent p @ [fst (app_handle v (app v) r [])]\<rparr>"
proof -
  have "app_handle v (app v) r (memory p) = (fst (app_handle v (app v) r []), memory p)"
    by (rule app_handle_pure)
  with assms show ?thesis
    by simp
qed

lemma step_memory:
  assumes "signal_listeners p = (\<lambda>s. None)" and "router p = app v"
  shows "memory (step v ev p) = memory p"
proof (cases ev)
  case (Request r)
  have "app_handle v (app v) r (memory p) = (fst (app_handle v (app v) r []), memory p)"
    by (rule app_handle_pure)
  with Request assms show ?thesis
    by simp
next
  case (Signal s)
  with assms show ?thesis
    by simp
qed

lemma run_memory:
  assumes "signal_listeners p = (\<lambda>s. None)" and "router p = app v"
  shows "memory (run v evs p) = memory p"
  using assms
proof (induction evs arbitrary: p)
  case Nil
  then show ?case by simp
next
  case (Cons ev evs)
  from Cons.prems have "signal_listeners (step v ev p) = (\<lambda>s. None)"
    and "router (step v ev p) = app v"
    by (simp_all add: step_frame)
  then have "memory (run v evs (step v ev p)) = memory (step v ev p)"
    by (rule Cons.IH)
  with Cons.prems show ?case
    by (simp add: step_memory)
qed

lemma run_requests:
  assumes "exit_status p = None" and "listening p \<noteq> None" and "router p = app v"
  shows "run v (replicate n (Request r)) p =
         p\<lparr>sent := sent p @ replicate n (fst (app_handle v (app v) r []))\<rparr>"
  using assms
proof (induction n arbitrary: p)
  case 0
  then show ?case by simp
next
  case (Suc n)
  let ?res = "fst (app_handle v (app v) r [])"
  let ?q = "p\<lparr>sent := sent p @ [?res]\<rparr>"
  from Suc.prems have "step v (Request r) p = ?q"
    by (rule step_request)
  then have "run v (replicate (Suc n) (Request r)) p = run v (replicate n (Request r)) ?q"
    by (simp only: replicate_Suc run.simps)
  also from Suc.prems have "\<dots> = ?q\<lparr>sent := sent ?q @ replicate n ?res\<rparr>"
    by (intro Suc.IH) simp_all
  finally show ?case
    by (simp add: replicate_app_Cons_same)
qed

section \<open>The claims\<close>

subsection \<open>C1: the response to \<^verbatim>\<open>GET /\<close>\<close>

text \<open>
  Claim C1 says that every \<^verbatim>\<open>GET /\<close> request is answered with status 200, the content
  type \<^verbatim>\<open>text/plain\<close> and a body equal to the configured greeting, \<^verbatim>\<open>Hello World!\<close> by
  default, whatever its headers and query string. The program answers differently in
  three respects, and the theorem states what it does (claim C1 as amended): for every
  request with method \<^verbatim>\<open>GET\<close> and path \<^verbatim>\<open>/\<close>, whatever the query string and the other
  headers, whatever the memory of the process, and with either version of Express,
  \<^item> unless the request is a conditional request that Express finds fresh
    (\<^verbatim>\<open>If-None-Match\<close> naming \<^verbatim>\<open>*\<close> or the entity tag of the greeting), the response has
    status 200, the content type \<^verbatim>\<open>text/html; charset=utf-8\<close> that \<^verbatim>\<open>res.send\<close> gives a
    string, and as body, byte for byte, the string literal of \<^verbatim>\<open>index.js\<close>,
    \<^verbatim>\<open>Hello World! I am new here\<close> followed by the rocket emoji; the greeting is not
    configurable;
  \<^item> a fresh conditional request is answered with status 304, without content headers
    and without a body;
  \<^item> the query string has no effect on the response, and the memory is left as it was.
\<close>

theorem get_root_response:
  assumes "req_method r = GET" and "req_path r = ''/''"
  shows "app_handle v (app v) r m =
     ((if fresh v (req_headers r) (Some (weak_etag greeting))
       then \<lparr>statusCode = 304, statusMessage = None,
             headers = [(''X-Powered-By'', ''Express''), (''ETag'', weak_etag greeting)],
             body = []\<rparr>
       else \<lparr>statusCode = 200, statusMessage = None,
             headers = [(''X-Powered-By'', ''Express''),
                        (''Content-Type'', ''text/html; charset=utf-8''),
                        (''Content-Length'', ''31''),
                        (''ETag'', weak_etag greeting)],
             body = greeting\<rparr>), m) \<and>
     app_handle v (app v) (r\<lparr>req_query := q\<rparr>) m = app_handle v (app v) r m"
proof -
  have "app_handle v (app v) r' m = (res_send v r' greeting (expressInit new_response), m)"
    if "req_method r' = GET" and "req_path r' = ''/''" for r'
    using that by (simp add: app_handle_root)
  from this [of r] this [of "r\<lparr>req_query := q\<rparr>"] assms show ?thesis
    by (simp add: res_send_init length_greeting show_nat_31)
qed

text \<open>
  The theorem at a request with a query string and ordinary headers, for both versions:
  status 200 and the 31 bytes of the greeting.
\<close>

theorem get_root_response_witness:
  "app_handle Express4 (app Express4)
     \<lparr>req_method = GET, req_path = ''/'', req_query = Some ''lang=en'',
      req_headers = [(''host'', ''localhost:3000''), (''accept'', ''*/*'')]\<rparr> [] =
   (\<lparr>statusCode = 200, statusMessage = None,
     headers = [(''X-Powered-By'', ''Express''),
                (''Content-Type'', ''text/html; charset=utf-8''),
                (''Content-Length'', ''31''),
                (''ETag'', weak_etag greeting)],
     body = ''Hello World! I am new here '' @ [CHR 0xF0, CHR 0x9F, CHR 0x9A, CHR 0x80]\<rparr>, []) \<and>
   app_handle Express5 (app Express5)
     \<lparr>req_method = GET, req_path = ''/'', req_query = Some ''lang=en'',
      req_headers = [(''host'', ''localhost:3000''), (''accept'', ''*/*'')]\<rparr> [] =
   (\<lparr>statusCode = 200, statusMessage = None,
     headers = [(''X-Powered-By'', ''Express''),
                (''Content-Type'', ''text/html; charset=utf-8''),
                (''Content-Length'', ''31''),
                (''ETag'', weak_etag greeting)],
     body = ''Hello World! I am new here '' @ [CHR 0xF0, CHR 0x9F, CHR 0x9A, CHR 0x80]\<rparr>, [])"
  using get_root_response
    [of "\<lparr>req_method = GET, req_path = ''/'', req_query = Some ''lang=en'',
          req_headers = [(''host'', ''localhost:3000''), (''accept'', ''*/*'')]\<rparr>" Express4 "[]"]
    get_root_response
    [of "\<lparr>req_method = GET, req_path = ''/'', req_query = Some ''lang=en'',
          req_headers = [(''host'', ''localhost:3000''), (''accept'', ''*/*'')]\<rparr>" Express5 "[]"]
  by (simp add: fresh_def truthy_def greeting_def)

text \<open>
  Claim C1 as stated fails, with either version: the content type of the answer to a
  plain \<^verbatim>\<open>GET /\<close> is not \<^verbatim>\<open>text/plain\<close>, its body is not \<^verbatim>\<open>Hello World!\<close>, and with the
  header \<^verbatim>\<open>If-None-Match: *\<close> the status is 304 and the body is empty.
\<close>

theorem get_root_counterexample:
  "res_get ''Content-Type''
     (fst (app_handle Express4 (app Express4)
        \<lparr>req_method = GET, req_path = ''/'', req_query = None, req_headers = []\<rparr> [])) =
     Some ''text/html; charset=utf-8'' \<and>
   res_get ''Content-Type''
     (fst (app_handle Express5 (app Express5)
        \<lparr>req_method = GET, req_path = ''/'', req_query = None, req_headers = []\<rparr> [])) =
     Some ''text/html; charset=utf-8'' \<and>
   body (fst (app_handle Express4 (app Express4)
          \<lparr>req_method = GET, req_path = ''/'', req_query = None, req_headers = []\<rparr> []))
     \<noteq> ''Hello World!'' \<and>
   body (fst (app_handle Express5 (app Express5)
          \<lparr>req_method = GET, req_path = ''/'', req_query = None, req_headers = []\<rparr> []))
     \<noteq> ''Hello World!'' \<and>
   statusCode
     (fst (app_handle Express4 (app Express4)
        \<lparr>req_method = GET, req_path = ''/'', req_query = None,
         req_headers = [(''if-none-match'', ''*'')]\<rparr> [])) = 304 \<and>
   statusCode
     (fst (app_handle Express5 (app Express5)
        \<lparr>req_method = GET, req_path = ''/'', req_query = None,
         req_headers = [(''if-none-match'', ''*'')]\<rparr> [])) = 304 \<and>
   body
     (fst (app_handle Express4 (app Express4)
        \<lparr>req_method = GET, req_path = ''/'', req_query = None,
         req_headers = [(''if-none-match'', ''*'')]\<rparr> [])) = [] \<and>
   body
     (fst (app_handle Express5 (app Express5)
        \<lparr>req_method = GET, req_path = ''/'', req_query = None,
         req_headers = [(''if-none-match'', ''*'')]\<rparr> [])) = []"
  by (simp add: app_handle_root res_send_init fresh_def truthy_def res_get_def greeting_def)

subsection \<open>C2: requests that no route answers\<close>

text \<open>
  Claim C2 says that every request other than \<^verbatim>\<open>GET /\<close> gets status 404 and a short
  plain-text body containing \<^verbatim>\<open>Not Found\<close>. Claim C2 as amended, which the theorem
  states, for every request, every memory and either version of Express:
  \<^item> a request whose method is none of \<^verbatim>\<open>GET\<close>, \<^verbatim>\<open>HEAD\<close> and \<^verbatim>\<open>OPTIONS\<close>, or whose path is
    not \<^verbatim>\<open>/\<close> (nor, with Express 5, \<^verbatim>\<open>//\<close>, which its pattern \<^verbatim>\<open>/\<close> matches as well), gets
    status 404 with the reason phrase \<^verbatim>\<open>Not Found\<close>, the content type
    \<^verbatim>\<open>text/html; charset=utf-8\<close> and, unless the method is \<^verbatim>\<open>HEAD\<close>, which gets no body,
    Express's HTML error page for the line \<^verbatim>\<open>Cannot <METHOD> <path>\<close>, the path encoded as
    \<^verbatim>\<open>encodeUrl\<close> encodes it; the body never contains the words \<^verbatim>\<open>Not Found\<close>;
  \<^item> every other request, that is \<^verbatim>\<open>GET\<close>, \<^verbatim>\<open>HEAD\<close> or \<^verbatim>\<open>OPTIONS\<close> on \<^verbatim>\<open>/\<close>, does not get
    404: \<^verbatim>\<open>OPTIONS\<close> gets status 200, and \<^verbatim>\<open>HEAD\<close>, like \<^verbatim>\<open>GET\<close>, gets status 200, or 304
    when it is a conditional request that Express finds fresh.
\<close>

theorem unmatched_request_response:
  "(req_method r \<notin> {GET, HEAD, OPTIONS} \<or>
    (req_path r \<noteq> ''/'' \<and> (v = Express4 \<or> req_path r \<noteq> ''//'')) \<longrightarrow>
      statusCode (fst (app_handle v (app v) r m)) = 404 \<and>
      statusMessage (fst (app_handle v (app v) r m)) = Some ''Not Found'' \<and>
      res_get ''Content-Type'' (fst (app_handle v (app v) r m)) =
        Some ''text/html; charset=utf-8'' \<and>
      body (fst (app_handle v (app v) r m)) =
        (if req_method r = HEAD then []
         else createHtmlDocument
                (''Cannot '' @ method_name (req_method r) @ '' '' @
                 encodeUrl (getResourceName r))) \<and>
      \<not> str_includes (body (fst (app_handle v (app v) r m))) ''Not Found'' \<and>
      snd (app_handle v (app v) r m) = m) \<and>
   (req_method r \<in> {GET, HEAD, OPTIONS} \<and>
    (req_path r = ''/'' \<or> (v = Express5 \<and> req_path r = ''//'')) \<longrightarrow>
      statusCode (fst (app_handle v (app v) r m)) =
        (if req_method r \<noteq> OPTIONS \<and> fresh v (req_headers r) (Some (weak_etag greeting))
         then 304 else 200))"
proof (intro conjI impI)
  assume miss: "req_method r \<notin> {GET, HEAD, OPTIONS} \<or>
      (req_path r \<noteq> ''/'' \<and> (v = Express4 \<or> req_path r \<noteq> ''//''))"
  let ?res = "if v = Express4 \<and> req_path r = [] then new_response else expressInit new_response"
  from miss have eq: "app_handle v (app v) r m = (finalhandler r ?res, m)"
    by (rule app_handle_unmatched)
  then show "statusCode (fst (app_handle v (app v) r m)) = 404"
    and "statusMessage (fst (app_handle v (app v) r m)) = Some ''Not Found''"
    and "res_get ''Content-Type'' (fst (app_handle v (app v) r m)) =
        Some ''text/html; charset=utf-8''"
    and "snd (app_handle v (app v) r m) = m"
    by (simp_all only: fst_conv snd_conv finalhandler_fields)
  from eq show page: "body (fst (app_handle v (app v) r m)) =
        (if req_method r = HEAD then []
         else createHtmlDocument
                (''Cannot '' @ method_name (req_method r) @ '' '' @
                 encodeUrl (getResourceName r)))"
    by (simp only: fst_conv finalhandler_fields)
  show "\<not> str_includes (body (fst (app_handle v (app v) r m))) ''Not Found''"
  proof (cases "req_method r = HEAD")
    case True
    with page have "body (fst (app_handle v (app v) r m)) = []"
      by simp
    then show ?thesis
      by simp
  next
    case False
    with page have "body (fst (app_handle v (app v) r m)) =
        createHtmlDocument
          (''Cannot '' @ method_name (req_method r) @ '' '' @ encodeUrl (getResourceName r))"
      by (simp only: if_False)
    then show ?thesis
      by (simp only: not_found_absent not_False_eq_True)
  qed
next
  assume hit: "req_method r \<in> {GET, HEAD, OPTIONS} \<and>
      (req_path r = ''/'' \<or> (v = Express5 \<and> req_path r = ''//''))"
  show "statusCode (fst (app_handle v (app v) r m)) =
        (if req_method r \<noteq> OPTIONS \<and> fresh v (req_headers r) (Some (weak_etag greeting))
         then 304 else 200)"
  proof (cases "req_method r = OPTIONS")
    case True
    with hit show ?thesis
      by (simp add: app_handle_options options_root_status)
  next
    case False
    with hit have "req_method r = GET \<or> req_method r = HEAD"
      by auto
    with hit False show ?thesis
      by (simp add: app_handle_root res_send_init)
  qed
qed

text \<open>
  The theorem at \<^verbatim>\<open>POST /\<close>, at \<^verbatim>\<open>GET /nonexistent\<close>, at two paths with a \<^verbatim>\<open>%\<close> that
  starts no escape sequence, and at \<^verbatim>\<open>OPTIONS /\<close>.
\<close>

theorem unmatched_request_response_witness:
  "statusCode (fst (app_handle Express4 (app Express4)
      \<lparr>req_method = POST, req_path = ''/'', req_query = None, req_headers = []\<rparr> [])) = 404 \<and>
   body (fst (app_handle Express4 (app Express4)
      \<lparr>req_method = POST, req_path = ''/'', req_query = None, req_headers = []\<rparr> [])) =
     createHtmlDocument ''Cannot POST /'' \<and>
   statusCode (fst (app_handle Express5 (app Express5)
      \<lparr>req_method = GET, req_path = ''/nonexistent'', req_query = None, req_headers = []\<rparr> [])) = 404 \<and>
   body (fst (app_handle Express5 (app Express5)
      \<lparr>req_method = GET, req_path = ''/nonexistent'', req_query = None, req_headers = []\<rparr> [])) =
     createHtmlDocument ''Cannot GET /nonexistent'' \<and>
   body (fst (app_handle Express4 (app Express4)
      \<lparr>req_method = GET, req_path = ''/%a'', req_query = None, req_headers = []\<rparr> [])) =
     createHtmlDocument ''Cannot GET /%a'' \<and>
   body (fst (app_handle Express5 (app Express5)
      \<lparr>req_method = GET, req_path = ''/%%41'', req_query = None, req_headers = []\<rparr> [])) =
     createHtmlDocument ''Cannot GET /%25%2541'' \<and>
   statusCode (fst (app_handle Express4 (app Express4)
      \<lparr>req_method = OPTIONS, req_path = ''/'', req_query = None, req_headers = []\<rparr> [])) = 200"
proof -
  have enc: "encodeUrl ''/'' = ''/''" "encodeUrl ''/nonexistent'' = ''/nonexistent''"
    "encodeUrl ''/%a'' = ''/%a''" "encodeUrl ''/%%41'' = ''/%25%2541''"
    by (simp_all add: url_char_def hex_digit_def encodeURI_def encodeURI_char_def
        uri_unescaped_def percent_def)
  from unmatched_request_response
      [of "\<lparr>req_method = POST, req_path = ''/'', req_query = None, req_headers = []\<rparr>"
          Express4 "[]"]
    unmatched_request_response
      [of "\<lparr>req_method = GET, req_path = ''/nonexistent'', req_query = None, req_headers = []\<rparr>"
          Express5 "[]"]
    unmatched_request_response
      [of "\<lparr>req_method = GET, req_path = ''/%a'', req_query = None, req_headers = []\<rparr>"
          Express4 "[]"]
    unmatched_request_response
      [of "\<lparr>req_method = GET, req_path = ''/%%41'', req_query = None, req_headers = []\<rparr>"
          Express5 "[]"]
    unmatched_request_response
      [of "\<lparr>req_method = OPTIONS, req_path = ''/'', req_query = None, req_headers = []\<rparr>"
          Express4 "[]"]
  show ?thesis
    by (simp add: getResourceName_def enc del: encodeUrl.simps str_includes.simps)
qed

text \<open>
  Claim C2 as stated fails, with either version: the body of the 404 response to
  \<^verbatim>\<open>GET /nonexistent\<close> is an HTML page that does not contain \<^verbatim>\<open>Not Found\<close>, and the
  requests \<^verbatim>\<open>HEAD /\<close> and \<^verbatim>\<open>OPTIONS /\<close>, which are not \<^verbatim>\<open>GET /\<close>, get status 200.
\<close>

theorem unmatched_request_counterexample:
  "body (fst (app_handle Express4 (app Express4)
      \<lparr>req_method = GET, req_path = ''/nonexistent'', req_query = None, req_headers = []\<rparr> [])) =
     createHtmlDocument ''Cannot GET /nonexistent'' \<and>
   body (fst (app_handle Express5 (app Express5)
      \<lparr>req_method = GET, req_path = ''/nonexistent'', req_query = None, req_headers = []\<rparr> [])) =
     createHtmlDocument ''Cannot GET /nonexistent'' \<and>
   \<not> str_includes (createHtmlDocument ''Cannot GET /nonexistent'') ''Not Found'' \<and>
   res_get ''Content-Type''
     (fst (app_handle Express4 (app Express4)
        \<lparr>req_method = GET, req_path = ''/nonexistent'', req_query = None, req_headers = []\<rparr> [])) =
     Some ''text/html; charset=utf-8'' \<and>
   statusCode (fst (app_handle Express4 (app Express4)
      \<lparr>req_method = HEAD, req_path = ''/'', req_query = None, req_headers = []\<rparr> [])) = 200 \<and>
   statusCode (fst (app_handle Express5 (app Express5)
      \<lparr>req_method = HEAD, req_path = ''/'', req_query = None, req_headers = []\<rparr> [])) = 200 \<and>
   statusCode (fst (app_handle Express4 (app Express4)
      \<lparr>req_method = OPTIONS, req_path = ''/'', req_query = None, req_headers = []\<rparr> [])) = 200 \<and>
   statusCode (fst (app_handle Express5 (app Express5)
      \<lparr>req_method = OPTIONS, req_path = ''/'', req_query = None, req_headers = []\<rparr> [])) = 200"
proof -
  let ?miss = "\<lparr>req_method = GET, req_path = ''/nonexistent'', req_query = None, req_headers = []\<rparr>"
  have "app_handle v (app v) ?miss [] = (finalhandler ?miss (expressInit new_response), [])" for v
    using app_handle_unmatched [of ?miss v "[]"] by simp
  moreover have enc: "encodeUrl (getResourceName ?miss) = ''/nonexistent''"
    by (simp add: getResourceName_def url_char_def)
  ultimately have miss:
    "body (fst (app_handle v (app v) ?miss [])) = createHtmlDocument ''Cannot GET /nonexistent'' \<and>
     res_get ''Content-Type'' (fst (app_handle v (app v) ?miss [])) =
       Some ''text/html; charset=utf-8''"
    for v
    by (simp add: finalhandler_fields del: encodeUrl.simps)
  have page: "\<not> str_includes (createHtmlDocument ''Cannot GET /nonexistent'') ''Not Found''"
    using not_found_absent [of GET "''/nonexistent''"]
    by (simp add: url_char_def)
  have head: "statusCode (fst (app_handle v (app v)
      \<lparr>req_method = HEAD, req_path = ''/'', req_query = None, req_headers = []\<rparr> [])) = 200" for v
    by (simp add: app_handle_root res_send_init fresh_def truthy_def)
  have opts: "statusCode (fst (app_handle v (app v)
      \<lparr>req_method = OPTIONS, req_path = ''/'', req_query = None, req_headers = []\<rparr> [])) = 200" for v
    by (simp add: app_handle_options options_root_status)
  from miss page head opts show ?thesis
    by blast
qed

subsection \<open>C3: the listening port\<close>

text \<open>
  Claim C3 says that the port defaults to 3000 and that the environment variable
  \<^verbatim>\<open>PORT\<close> overrides it. Claim C3 as amended, which the theorem states: the port is the
  constant 3000 of \<^verbatim>\<open>index.js\<close>; the program does not read the environment, so in every
  environment, with \<^verbatim>\<open>PORT\<close> set or not, a process that can bind port 3000 listens on
  port 3000 and is the process that the empty environment gives.
\<close>

theorem port_is_constant:
  assumes "os PORT = None"
  shows "listening (main v env os) = Some 3000 \<and> main v env os = main v [] os"
  using assms by (simp add: main_listening)

text \<open>
  The theorem in an environment that sets \<^verbatim>\<open>PORT=8080\<close>, on a machine where every port
  is free, for both versions.
\<close>

theorem port_is_constant_witness:
  "listening (main Express4 [(''PORT'', ''8080'')] Map.empty) = Some 3000 \<and>
   listening (main Express5 [(''PORT'', ''8080'')] Map.empty) = Some 3000"
proof -
  have free: "Map.empty PORT = None"
    by simp
  from free port_is_constant [where os = Map.empty and v = Express4 and env = "[(''PORT'', ''8080'')]"]
    port_is_constant [where os = Map.empty and v = Express5 and env = "[(''PORT'', ''8080'')]"]
  show ?thesis
    by blast
qed

text \<open>
  Claim C3 as stated fails: started with \<^verbatim>\<open>PORT=8080\<close> on a machine where every port is
  free, the process listens on port 3000 and not on port 8080.
\<close>

theorem port_override_counterexample:
  "listening (main Express4 [(''PORT'', ''8080'')] Map.empty) = Some 3000 \<and>
   listening (main Express4 [(''PORT'', ''8080'')] Map.empty) \<noteq> Some 8080 \<and>
   listening (main Express5 [(''PORT'', ''8080'')] Map.empty) = Some 3000 \<and>
   listening (main Express5 [(''PORT'', ''8080'')] Map.empty) \<noteq> Some 8080"
  by (simp add: main_listening)

subsection \<open>C4: failure to bind\<close>




subsection \<open>C5: the handler is deterministic and stateless\<close>

text \<open>
  Claim C5: two runs of the server that receive the same \<^verbatim>\<open>GET /\<close> request, and any \<open>n\<close>
  repetitions of the request within one run, produce identical responses; no state is
  carried over from one request to the next. A handler can read and change the memory
  of its process; the theorem states that the handler of \<^verbatim>\<open>index.js\<close> does neither:
  \<^item> the response of the application to a request \<open>r\<close> is the same in every memory, and
    the memory is returned unchanged;
  \<^item> take two runs of the program, in any environments, on any machines, after any
    histories of events that left them running: in both, \<open>n\<close> repetitions of \<open>r\<close> add to
    the responses exactly \<open>n\<close> copies of one response, the same in both runs, and the
    memory of the process is still empty;
  \<^item> for \<^verbatim>\<open>GET /\<close> this response is the one of claim C1, which the headers of the request
    determine.

  Responses are compared as Express ends them. The \<^verbatim>\<open>Date\<close> header, which Node adds when
  it writes a response to the socket, is the time of writing and not part of them.
\<close>

theorem responses_depend_on_request_only:
  assumes "exit_status (run v evs1 (main v env1 os1)) = None"
    and "exit_status (run v evs2 (main v env2 os2)) = None"
  shows "app_handle v (app v) r m = (fst (app_handle v (app v) r []), m) \<and>
         sent (run v (evs1 @ replicate n (Request r)) (main v env1 os1)) =
           sent (run v evs1 (main v env1 os1)) @ replicate n (fst (app_handle v (app v) r [])) \<and>
         sent (run v (evs2 @ replicate n (Request r)) (main v env2 os2)) =
           sent (run v evs2 (main v env2 os2)) @ replicate n (fst (app_handle v (app v) r [])) \<and>
         memory (run v (evs1 @ replicate n (Request r)) (main v env1 os1)) = [] \<and>
         memory (run v (evs2 @ replicate n (Request r)) (main v env2 os2)) = [] \<and>
         (req_method r = GET \<and> req_path r = ''/'' \<longrightarrow>
            fst (app_handle v (app v) r []) =
              (if fresh v (req_headers r) (Some (weak_etag greeting))
               then \<lparr>statusCode = 304, statusMessage = None,
                     headers = [(''X-Powered-By'', ''Express''), (''ETag'', weak_etag greeting)],
                     body = []\<rparr>
               else \<lparr>statusCode = 200, statusMessage = None,
                     headers = [(''X-Powered-By'', ''Express''),
                                (''Content-Type'', ''text/html; charset=utf-8''),
                                (''Content-Length'', ''31''),
                                (''ETag'', weak_etag greeting)],
                     body = greeting\<rparr>))"
proof -
  have repeat: "sent (run v (evs @ replicate n (Request r)) (main v env os)) =
      sent (run v evs (main v env os)) @ replicate n (fst (app_handle v (app v) r [])) \<and>
      memory (run v (evs @ replicate n (Request r)) (main v env os)) = []"
    if "exit_status (run v evs (main v env os)) = None" for os env evs
  proof -
    let ?p = "run v evs (main v env os)"
    have quiet: "signal_listeners (main v env os) = (\<lambda>s. None)"
      by (rule main_started)
    with that have "exit_status (main v env os) = None" and "listening ?p = listening (main v env os)"
      using run_running [of "main v env os" v evs] by simp_all
    then have "listening ?p \<noteq> None"
      by (simp add: main_started)
    moreover from quiet have "router ?p = app v"
      using run_frame [of "main v env os" v evs] by (simp add: main_started)
    ultimately have "run v (replicate n (Request r)) ?p =
        ?p\<lparr>sent := sent ?p @ replicate n (fst (app_handle v (app v) r []))\<rparr>"
      using that by (intro run_requests)
    moreover from quiet have "memory ?p = []"
      using run_memory [of "main v env os" v evs] by (simp add: main_started)
    ultimately show ?thesis
      by (simp add: run_append)
  qed
  have root: "fst (app_handle v (app v) r []) = res_send v r greeting (expressInit new_response)"
    if "req_method r = GET \<and> req_path r = ''/''"
    using that by (simp add: app_handle_root)
  from assms show ?thesis
    using app_handle_pure [of v r m]
    by (simp add: repeat) (simp add: root res_send_init length_greeting show_nat_31)
qed

text \<open>
  The theorem for three repetitions of \<^verbatim>\<open>GET /\<close> in two runs with different
  environments and earlier requests.
\<close>

theorem responses_depend_on_request_only_witness:
  "sent (run Express4
           ([Request \<lparr>req_method = POST, req_path = ''/x'', req_query = None, req_headers = []\<rparr>] @
            replicate 3 (Request \<lparr>req_method = GET, req_path = ''/'', req_query = None, req_headers = []\<rparr>))
           (main Express4 [] Map.empty)) =
     sent (run Express4
            [Request \<lparr>req_method = POST, req_path = ''/x'', req_query = None, req_headers = []\<rparr>]
            (main Express4 [] Map.empty)) @
     replicate 3 (fst (app_handle Express4 (app Express4)
       \<lparr>req_method = GET, req_path = ''/'', req_query = None, req_headers = []\<rparr> [])) \<and>
   sent (run Express4
           ([Request \<lparr>req_method = HEAD, req_path = ''/'', req_query = None, req_headers = []\<rparr>] @
            replicate 3 (Request \<lparr>req_method = GET, req_path = ''/'', req_query = None, req_headers = []\<rparr>))
           (main Express4 [(''PORT'', ''8080'')] Map.empty)) =
     sent (run Express4
            [Request \<lparr>req_method = HEAD, req_path = ''/'', req_query = None, req_headers = []\<rparr>]
            (main Express4 [(''PORT'', ''8080'')] Map.empty)) @
     replicate 3 (fst (app_handle Express4 (app Express4)
       \<lparr>req_method = GET, req_path = ''/'', req_query = None, req_headers = []\<rparr> [])) \<and>
   fst (app_handle Express4 (app Express4)
       \<lparr>req_method = GET, req_path = ''/'', req_query = None, req_headers = []\<rparr> []) =
     \<lparr>statusCode = 200, statusMessage = None,
      headers = [(''X-Powered-By'', ''Express''),
                 (''Content-Type'', ''text/html; charset=utf-8''),
                 (''Content-Length'', ''31''),
                 (''ETag'', weak_etag greeting)],
      body = greeting\<rparr>"
proof -
  have alive:
    "exit_status (run Express4
        [Request \<lparr>req_method = POST, req_path = ''/x'', req_query = None, req_headers = []\<rparr>]
        (main Express4 [] Map.empty)) = None"
    "exit_status (run Express4
        [Request \<lparr>req_method = HEAD, req_path = ''/'', req_query = None, req_headers = []\<rparr>]
        (main Express4 [(''PORT'', ''8080'')] Map.empty)) = None"
    by (simp_all add: main_listening split: prod.splits)
  have stale: "\<not> fresh Express4 [] (Some (weak_etag greeting))"
    by (simp add: fresh_def truthy_def)
  from responses_depend_on_request_only [OF alive, of
      "\<lparr>req_method = GET, req_path = ''/'', req_query = None, req_headers = []\<rparr>" "[]" 3]
  show ?thesis
    by (simp add: stale del: run.simps replicate.simps)
qed

subsection \<open>C6: the startup log line\<close>

text \<open>
  Claim C6: once the listener is active the process emits exactly one log line, which
  states the bound port, and has no other observable effect than serving responses.
  The theorem: when port 3000 can be bound, the process listens on \<open>PORT\<close>, its standard
  output is the single line \<^verbatim>\<open>Server is running on http://localhost:3000\<close> (the text of
  the callback with \<open>PORT\<close> printed in decimal), and after any sequence of events
  standard output still holds that one line and standard error is empty.
\<close>

theorem startup_log_line:
  assumes "os PORT = None"
  shows "listening (main v env os) = Some PORT \<and>
         stdout (main v env os) = [''Server is running on http://localhost:'' @ show_nat PORT] \<and>
         stdout (run v evs (main v env os)) = [''Server is running on http://localhost:3000''] \<and>
         stderr (run v evs (main v env os)) = []"
proof -
  have "signal_listeners (main v env os) = (\<lambda>s. None)"
    by (rule main_started)
  then have "stdout (run v evs (main v env os)) = stdout (main v env os)"
    and "stderr (run v evs (main v env os)) = stderr (main v env os)"
    using run_frame [of "main v env os" v evs] by simp_all
  with assms show ?thesis
    by (simp add: main_listening PORT_def show_nat_3000)
qed

text \<open>The theorem for a run that answers one request and then receives \<^verbatim>\<open>SIGTERM\<close>.\<close>

theorem startup_log_line_witness:
  "listening (main Express5 [] Map.empty) = Some 3000 \<and>
   stdout (main Express5 [] Map.empty) = [''Server is running on http://localhost:3000''] \<and>
   stdout (run Express5
             [Request \<lparr>req_method = GET, req_path = ''/'', req_query = None, req_headers = []\<rparr>,
              Signal SIGTERM] (main Express5 [] Map.empty)) =
     [''Server is running on http://localhost:3000''] \<and>
   stderr (run Express5
             [Request \<lparr>req_method = GET, req_path = ''/'', req_query = None, req_headers = []\<rparr>,
              Signal SIGTERM] (main Express5 [] Map.empty)) = []"
proof -
  have free: "Map.empty PORT = None"
    by simp
  from free startup_log_line [where os = Map.empty and v = Express5 and env = "[]" and evs =
      "[Request \<lparr>req_method = GET, req_path = ''/'', req_query = None, req_headers = []\<rparr>, Signal SIGTERM]"]
  show ?thesis
    by (simp add: PORT_def show_nat_3000 del: run.simps)
qed

subsection \<open>C7: the route table\<close>

text \<open>
  Claim C7: the route table has no two entries with the same method and path, is built
  once at process start from static configuration, and is never modified afterwards.
  The theorem: the table of the program is the single entry \<^verbatim>\<open>(GET, /)\<close>, its keys are
  distinct, the started process holds this table whatever the environment and the
  machine, and after any sequence of events it still does.
\<close>

theorem route_table_fixed:
  "map (\<lambda>r. (route_method r, route_path r)) (app v) = [(GET, ''/'')] \<and>
   distinct (map (\<lambda>r. (route_method r, route_path r)) (app v)) \<and>
   router (main v env os) = app v \<and>
   router (run v evs (main v env os)) = app v"
proof -
  have "signal_listeners (main v env os) = (\<lambda>s. None)" and "router (main v env os) = app v"
    by (rule main_started)+
  then have "router (main v env os) = app v" and "router (run v evs (main v env os)) = app v"
    using run_frame [of "main v env os" v evs] by simp_all
  then show ?thesis
    by (simp add: app_def app_get_def express_def)
qed

subsection \<open>C9: termination signals\<close>

text \<open>
  Claim C9 says that on a termination signal the process closes the listener, lets
  in-flight responses complete and exits with status 0. \<^verbatim>\<open>index.js\<close> registers no
  listener for any signal and never closes its server. Claim C9 as amended, which the
  theorem states: in a run of the program that has left the process running, no signal
  has a listener, so \<^verbatim>\<open>SIGTERM\<close> or \<^verbatim>\<open>SIGINT\<close> ends the process at once by Node's default
  action: the listener is gone with the process, the exit status is 128 plus the
  signal's number (143 for \<^verbatim>\<open>SIGTERM\<close>, 130 for \<^verbatim>\<open>SIGINT\<close>), the responses written before
  the signal are what they were, and no event after the signal changes anything: no
  later request is answered.
\<close>

theorem termination_signal_default:
  assumes "exit_status (run v evs (main v env os)) = None"
  shows "signal_listeners (run v evs (main v env os)) s = None \<and>
         run v (evs @ [Signal s]) (main v env os) =
           (run v evs (main v env os))
             \<lparr>listening := None, exit_status := Some (128 + signal_number s)\<rparr> \<and>
         exit_status (run v (evs @ [Signal SIGTERM]) (main v env os)) = Some 143 \<and>
         exit_status (run v (evs @ [Signal SIGINT]) (main v env os)) = Some 130 \<and>
         run v (evs @ Signal s # evs') (main v env os) =
           run v (evs @ [Signal s]) (main v env os)"
proof -
  let ?p = "run v evs (main v env os)"
  have "signal_listeners (main v env os) = (\<lambda>s. None)"
    by (rule main_started)
  then have quiet: "signal_listeners ?p = (\<lambda>s. None)"
    using run_frame [of "main v env os" v evs] by simp
  with assms have kill: "step v (Signal s') ?p =
      ?p\<lparr>listening := None, exit_status := Some (128 + signal_number s')\<rparr>" for s'
    by simp
  have "run v (evs @ Signal s # evs') (main v env os) = run v evs' (step v (Signal s) ?p)"
    by (simp add: run_append)
  also have "\<dots> = step v (Signal s) ?p"
    by (rule run_exited) (simp only: kill, simp)
  finally have "run v (evs @ Signal s # evs') (main v env os) =
      run v (evs @ [Signal s]) (main v env os)"
    by (simp add: run_append)
  with quiet kill show ?thesis
    by (simp add: run_append)
qed

text \<open>
  The theorem for a run that answers one request, receives \<^verbatim>\<open>SIGTERM\<close>, and is sent
  another request afterwards.
\<close>

theorem termination_signal_default_witness:
  "exit_status (run Express4
     [Request \<lparr>req_method = GET, req_path = ''/'', req_query = None, req_headers = []\<rparr>,
      Signal SIGTERM] (main Express4 [] Map.empty)) = Some 143 \<and>
   listening (run Express4
     [Request \<lparr>req_method = GET, req_path = ''/'', req_query = None, req_headers = []\<rparr>,
      Signal SIGTERM] (main Express4 [] Map.empty)) = None \<and>
   run Express4
     [Request \<lparr>req_method = GET, req_path = ''/'', req_query = None, req_headers = []\<rparr>,
      Signal SIGTERM,
      Request \<lparr>req_method = GET, req_path = ''/'', req_query = None, req_headers = []\<rparr>]
     (main Express4 [] Map.empty) =
   run Express4
     [Request \<lparr>req_method = GET, req_path = ''/'', req_query = None, req_headers = []\<rparr>,
      Signal SIGTERM] (main Express4 [] Map.empty)"
proof -
  have alive: "exit_status (run Express4
      [Request \<lparr>req_method = GET, req_path = ''/'', req_query = None, req_headers = []\<rparr>]
      (main Express4 [] Map.empty)) = None"
    by (simp add: main_listening split: prod.splits)
  from termination_signal_default [OF alive, of SIGTERM
      "[Request \<lparr>req_method = GET, req_path = ''/'', req_query = None, req_headers = []\<rparr>]"]
  show ?thesis
    by (simp del: run.simps) 
qed

text \<open>
  Claim C9 as stated fails, with either version: after \<^verbatim>\<open>SIGTERM\<close> the exit status of the
  process is 143, not 0.
\<close>

theorem graceful_shutdown_counterexample:
  "exit_status (run Express4 [Signal SIGTERM] (main Express4 [] Map.empty)) = Some 143 \<and>
   exit_status (run Express5 [Signal SIGTERM] (main Express5 [] Map.empty)) = Some 143 \<and>
   exit_status (run Express4 [Signal SIGTERM] (main Express4 [] Map.empty)) \<noteq> Some 0 \<and>
   exit_status (run Express5 [Signal SIGTERM] (main Express5 [] Map.empty)) \<noteq> Some 0"
  by (simp add: main_listening)

subsection \<open>C10: \<^verbatim>\<open>HEAD /\<close>\<close>

text \<open>
  Claim C10 says that a \<^verbatim>\<open>HEAD\<close> request to \<^verbatim>\<open>/\<close> is handled by the \<^verbatim>\<open>GET /\<close> route and
  returns status 200 with the headers of \<^verbatim>\<open>GET /\<close> and an empty body, not a 404. Claim
  C10 as amended, which the theorem states: a \<^verbatim>\<open>HEAD\<close> request to \<^verbatim>\<open>/\<close> gets the status
  and the headers that the same request with method \<^verbatim>\<open>GET\<close> gets, and an empty body; the
  status is 200 unless the request is a conditional request that Express finds fresh,
  and 304 then; it is never 404. The memory is left as it was.
\<close>

theorem head_root_response:
  assumes "req_method r = HEAD" and "req_path r = ''/''"
  shows "statusCode (fst (app_handle v (app v) r m)) =
           statusCode (fst (app_handle v (app v) (r\<lparr>req_method := GET\<rparr>) m)) \<and>
         headers (fst (app_handle v (app v) r m)) =
           headers (fst (app_handle v (app v) (r\<lparr>req_method := GET\<rparr>) m)) \<and>
         body (fst (app_handle v (app v) r m)) = [] \<and>
         statusCode (fst (app_handle v (app v) r m)) =
           (if fresh v (req_headers r) (Some (weak_etag greeting)) then 304 else 200) \<and>
         snd (app_handle v (app v) r m) = m"
proof -
  from assms have "app_handle v (app v) r m =
      (res_send v r greeting (expressInit new_response), m)"
    by (simp add: app_handle_root)
  moreover from assms have "app_handle v (app v) (r\<lparr>req_method := GET\<rparr>) m =
      (res_send v (r\<lparr>req_method := GET\<rparr>) greeting (expressInit new_response), m)"
    by (simp add: app_handle_root)
  ultimately show ?thesis
    using assms by (simp add: res_send_init)
qed

text \<open>The theorem at a \<^verbatim>\<open>HEAD /\<close> request without headers.\<close>

theorem head_root_response_witness:
  "statusCode (fst (app_handle Express4 (app Express4)
      \<lparr>req_method = HEAD, req_path = ''/'', req_query = None, req_headers = []\<rparr> [])) = 200 \<and>
   headers (fst (app_handle Express4 (app Express4)
      \<lparr>req_method = HEAD, req_path = ''/'', req_query = None, req_headers = []\<rparr> [])) =
     headers (fst (app_handle Express4 (app Express4)
      \<lparr>req_method = GET, req_path = ''/'', req_query = None, req_headers = []\<rparr> [])) \<and>
   body (fst (app_handle Express4 (app Express4)
      \<lparr>req_method = HEAD, req_path = ''/'', req_query = None, req_headers = []\<rparr> [])) = [] \<and>
   statusCode (fst (app_handle Express5 (app Express5)
      \<lparr>req_method = HEAD, req_path = ''/'', req_query = None, req_headers = []\<rparr> [])) = 200 \<and>
   body (fst (app_handle Express5 (app Express5)
      \<lparr>req_method = HEAD, req_path = ''/'', req_query = None, req_headers = []\<rparr> [])) = []"
  using head_root_response
    [of "\<lparr>req_method = HEAD, req_path = ''/'', req_query = None, req_headers = []\<rparr>" Express4 "[]"]
    head_root_response
    [of "\<lparr>req_method = HEAD, req_path = ''/'', req_query = None, req_headers = []\<rparr>" Express5 "[]"]
  by (simp add: fresh_def truthy_def)

text \<open>
  Claim C10 as stated fails: \<^verbatim>\<open>HEAD /\<close> with the header \<^verbatim>\<open>If-None-Match: *\<close> gets status
  304, not 200.
\<close>

theorem head_root_counterexample:
  "statusCode
     (fst (app_handle Express4 (app Express4)
        \<lparr>req_method = HEAD, req_path = ''/'', req_query = None,
         req_headers = [(''if-none-match'', ''*'')]\<rparr> [])) = 304 \<and>
   statusCode
     (fst (app_handle Express5 (app Express5)
        \<lparr>req_method = HEAD, req_path = ''/'', req_query = None,
         req_headers = [(''if-none-match'', ''*'')]\<rparr> [])) = 304"
  by (simp add: app_handle_root res_send_init fresh_def truthy_def)

end
